theory Spec2Isabelle
  imports Main "HOL-Library.Sublist"
begin

section \<open>Values handled by PhotoLayer.tsx\<close>

text \<open>
  JavaScript numbers are only copied by PhotoLayer (texture and body sizes), never
  computed with, so they are integers here.
\<close>

record Size =
  width :: int
  height :: int

text \<open>A texture has a width and a height (read at lines 91 and 118) and an identity.\<close>

record Texture = Size +
  textureId :: nat

text \<open>
  Objects that the source compares with \<open>!==\<close> are compared by reference: an object is
  its identity together with its contents, and only the identity is compared.
\<close>

datatype 'a obj = Obj (ident: nat) (contents: 'a)

definition refEq :: "'a obj \<Rightarrow> 'a obj \<Rightarrow> bool" where
  "refEq a b = (ident a = ident b)"

text \<open>\<open>a === b\<close> for values of type \<open>T | null\<close>.\<close>

fun refEqNullable :: "'a obj option \<Rightarrow> 'a obj option \<Rightarrow> bool" where
  "refEqNullable None None = True"
| "refEqNullable (Some a) (Some b) = refEq a b"
| "refEqNullable _ _ = False"

type_synonym Rect = "int \<times> int \<times> int \<times> int"
type_synonym Mat4 = "int list"
type_synonym DetailMode = string

record CameraMetrics =
  canvasSize :: Size
  projectionMatrix :: Mat4
  cameraMatrix :: Mat4
  cropRect :: Rect

text \<open>\<open>PhotoLayerLoadingState = 'loading' | 'done' | TextureError\<close> (line 19).\<close>

datatype 'e PhotoLayerLoadingState = Loading | Done | Failed 'e

text \<open>
  The data fields of \<open>Props\<close> (lines 22-34). The two callbacks \<open>onLoadingStateChange\<close>
  and \<open>onTextureChange\<close> are recorded as calls, see \<open>call\<close> below.
\<close>

record Props =
  mode :: DetailMode
  bodySize :: "Size obj"
  imagePath :: string
  imagePathPrev :: "string option"
  imagePathNext :: "string option"
  cameraMetrics :: "CameraMetrics obj option"

text \<open>
  \<open>Partial<Props>\<close>: every field may be absent (\<open>undefined\<close>, here the outer \<open>None\<close>).
\<close>

record PartialProps =
  p_mode :: "DetailMode option"
  p_bodySize :: "Size obj option"
  p_imagePath :: "string option"
  p_imagePathPrev :: "string option option"
  p_imagePathNext :: "string option option"
  p_cameraMetrics :: "CameraMetrics obj option option"

text \<open>The object \<open>{}\<close> passed by \<open>componentDidMount\<close> (line 67).\<close>

definition emptyProps :: PartialProps where
  "emptyProps = \<lparr>p_mode = None, p_bodySize = None, p_imagePath = None,
     p_imagePathPrev = None, p_imagePathNext = None, p_cameraMetrics = None\<rparr>"

text \<open>A full \<open>Props\<close> object passed where \<open>Partial<Props>\<close> is expected (lines 79, 93).\<close>

definition asPartial :: "Props \<Rightarrow> PartialProps" where
  "asPartial p = \<lparr>p_mode = Some (mode p), p_bodySize = Some (bodySize p),
     p_imagePath = Some (imagePath p), p_imagePathPrev = Some (imagePathPrev p),
     p_imagePathNext = Some (imagePathNext p), p_cameraMetrics = Some (cameraMetrics p)\<rparr>"

text \<open>\<open>props.bodySize !== prevProps.bodySize\<close> (line 123).\<close>

definition bodySizeDiffers :: "Props \<Rightarrow> PartialProps \<Rightarrow> bool" where
  "bodySizeDiffers p prev =
     (case p_bodySize prev of None \<Rightarrow> True | Some b \<Rightarrow> \<not> refEq (bodySize p) b)"

text \<open>\<open>props.mode !== prevProps.mode\<close> (line 129): strings are compared by value.\<close>

definition modeDiffers :: "Props \<Rightarrow> PartialProps \<Rightarrow> bool" where
  "modeDiffers p prev = (p_mode prev \<noteq> Some (mode p))"

text \<open>
  \<open>props.cameraMetrics !== prevProps.cameraMetrics\<close> (lines 129, 134): \<open>null\<close> differs
  from \<open>undefined\<close>.
\<close>

definition cameraMetricsDiffers :: "Props \<Rightarrow> PartialProps \<Rightarrow> bool" where
  "cameraMetricsDiffers p prev =
     (case p_cameraMetrics prev of None \<Rightarrow> True
      | Some c \<Rightarrow> \<not> refEqNullable (cameraMetrics p) c)"

section \<open>The collaborators: canvas, its element, texture cache, timers\<close>

text \<open>The canvas's DOM element, as far as PhotoLayer touches it.\<close>

record Element =
  className :: string
  display :: string
  styleWidth :: "int option"
  styleHeight :: "int option"
  parentNode :: bool

text \<open>
  Modelled from the spec: the class PhotoCanvas is not among the sources. Section 6 gives
  its interface: setters for base texture, clip rectangle, size and the two matrices, a
  redraw and the element. The record keeps what was last set and counts the redraws.
  What \<open>isValid()\<close> answers is a parameter \<open>valid\<close> of the functions below.
\<close>

record PhotoCanvas =
  baseTexture :: "Texture option"
  clipRect :: "Rect option"
  pixelSize :: "Size option"
  projection :: "Mat4 option"
  camera :: "Mat4 option"
  redraws :: nat
  element :: Element

definition newPhotoCanvas :: PhotoCanvas where
  "newPhotoCanvas = \<lparr>baseTexture = None, clipRect = None, pixelSize = None,
     projection = None, camera = None, redraws = 0,
     element = \<lparr>className = [], display = [], styleWidth = None, styleHeight = None,
       parentNode = False\<rparr>\<rparr>"

text \<open>
  Modelled from the spec: the class TextureCache is not among the sources. Section 4.1:
  \<open>setImagesToFetch\<close> declares the interest list, \<open>getTexture\<close> and \<open>getTextureError\<close>
  are non-blocking reads of what is resident; decoding is asynchronous, so the contents
  change only between calls of PhotoLayer's methods.
\<close>

record 'e TextureCache =
  cacheCanvas :: nat
  maxCacheSize :: nat
  imagesToFetch :: "string option list"
  textures :: "string \<Rightarrow> Texture option"
  errors :: "string \<Rightarrow> 'e option"

definition newTextureCache :: "nat \<Rightarrow> nat \<Rightarrow> 'e TextureCache" where
  "newTextureCache c n = \<lparr>cacheCanvas = c, maxCacheSize = n, imagesToFetch = [],
     textures = (\<lambda>_. None), errors = (\<lambda>_. None)\<rparr>"

definition setImagesToFetch :: "string option list \<Rightarrow> 'e TextureCache \<Rightarrow> 'e TextureCache" where
  "setImagesToFetch paths tc = tc\<lparr>imagesToFetch := paths\<rparr>"

definition getTexture :: "'e TextureCache \<Rightarrow> string \<Rightarrow> Texture option" where
  "getTexture tc path = textures tc path"

definition getTextureError :: "'e TextureCache \<Rightarrow> string \<Rightarrow> 'e option" where
  "getTextureError tc path = errors tc path"

text \<open>
  Every call that PhotoLayer makes on a collaborator or on an observer, in order. Canvas
  and element calls carry the reference of the canvas they act on.
\<close>

datatype 'e call =
    CallSetImagesToFetch "string option list"
  | CallAppendChild nat
  | CallRemoveChild nat
  | CallSetDisplay nat string
  | CallSetStyleSize nat int int
  | CallSetBaseTexture nat "Texture option" bool
  | CallSetClipRect nat "Rect option"
  | CallSetSize nat Size
  | CallSetProjectionMatrix nat Mat4
  | CallSetCameraMatrix nat Mat4
  | CallUpdate nat
  | CallSetTimeout nat nat
  | CallClearTimeout nat
  | OnLoadingStateChange "'e PhotoLayerLoadingState"
  | OnTextureChange Size

section \<open>The state of a PhotoLayer and of its surroundings\<close>

text \<open>
  The private fields of the class (lines 38-44) and \<open>this.props\<close>; then what lives
  outside the component: the store of canvas objects (\<open>canvas\<close> is a reference into
  it, and the closure of line 156 keeps its own copy of that reference), the pending
  timeouts of the event loop (handle and captured canvas reference) and the calls made so
  far. A timeout handle is never falsy, so a pending handle is \<open>Some h\<close>.
\<close>

record 'e PhotoLayer =
  props :: Props
  canvas :: "nat option"
  textureCache :: "'e TextureCache option"
  canvasImagePath :: "string option"
  deferredHideCanvasTimeout :: "nat option"
  prevLoadingState :: "'e PhotoLayerLoadingState option"
  store :: "nat \<Rightarrow> PhotoCanvas"
  nextRef :: nat
  timers :: "(nat \<times> nat) list"
  nextHandle :: nat
  calls :: "'e call list"

definition newPhotoLayer :: "Props \<Rightarrow> 'e PhotoLayer" where
  "newPhotoLayer p = \<lparr>props = p, canvas = None, textureCache = None,
     canvasImagePath = None, deferredHideCanvasTimeout = None, prevLoadingState = None,
     store = (\<lambda>_. newPhotoCanvas), nextRef = 0, timers = [], nextHandle = 1, calls = []\<rparr>"

definition call :: "'e call \<Rightarrow> 'e PhotoLayer \<Rightarrow> 'e PhotoLayer" where
  "call c st = st\<lparr>calls := calls st @ [c]\<rparr>"

text \<open>A method call on the canvas object behind reference \<open>cr\<close>.\<close>

definition onCanvas :: "nat \<Rightarrow> (PhotoCanvas \<Rightarrow> PhotoCanvas) \<Rightarrow> 'e PhotoLayer \<Rightarrow> 'e PhotoLayer" where
  "onCanvas cr f st = st\<lparr>store := (store st)(cr := f (store st cr))\<rparr>"

text \<open>\<open>canvas.getElement().style.display = d\<close>.\<close>

definition setDisplay :: "nat \<Rightarrow> string \<Rightarrow> 'e PhotoLayer \<Rightarrow> 'e PhotoLayer" where
  "setDisplay cr d st =
     call (CallSetDisplay cr d)
       (onCanvas cr (\<lambda>c. c\<lparr>element := (element c)\<lparr>display := d\<rparr>\<rparr>) st)"

definition setBaseTexture :: "nat \<Rightarrow> Texture option \<Rightarrow> bool \<Rightarrow> 'e PhotoLayer \<Rightarrow> 'e PhotoLayer" where
  "setBaseTexture cr t flag st =
     call (CallSetBaseTexture cr t flag) (onCanvas cr (\<lambda>c. c\<lparr>baseTexture := t\<rparr>) st)"

definition setClipRect :: "nat \<Rightarrow> Rect option \<Rightarrow> 'e PhotoLayer \<Rightarrow> 'e PhotoLayer" where
  "setClipRect cr r st =
     call (CallSetClipRect cr r) (onCanvas cr (\<lambda>c. c\<lparr>clipRect := r\<rparr>) st)"

definition setSize :: "nat \<Rightarrow> Size \<Rightarrow> 'e PhotoLayer \<Rightarrow> 'e PhotoLayer" where
  "setSize cr s st =
     call (CallSetSize cr s) (onCanvas cr (\<lambda>c. c\<lparr>pixelSize := Some s\<rparr>) st)"

definition setProjectionMatrix :: "nat \<Rightarrow> Mat4 \<Rightarrow> 'e PhotoLayer \<Rightarrow> 'e PhotoLayer" where
  "setProjectionMatrix cr m st =
     call (CallSetProjectionMatrix cr m) (onCanvas cr (\<lambda>c. c\<lparr>projection := Some m\<rparr>) st)"

definition setCameraMatrix :: "nat \<Rightarrow> Mat4 \<Rightarrow> 'e PhotoLayer \<Rightarrow> 'e PhotoLayer" where
  "setCameraMatrix cr m st =
     call (CallSetCameraMatrix cr m) (onCanvas cr (\<lambda>c. c\<lparr>camera := Some m\<rparr>) st)"

text \<open>\<open>canvas.update()\<close>: the redraw.\<close>

definition update :: "nat \<Rightarrow> 'e PhotoLayer \<Rightarrow> 'e PhotoLayer" where
  "update cr st = call (CallUpdate cr) (onCanvas cr (\<lambda>c. c\<lparr>redraws := Suc (redraws c)\<rparr>) st)"

text \<open>
  \<open>setTimeout(callback, delay)\<close>: a fresh handle, pending with the canvas reference that
  the callback captured. \<open>clearTimeout(h)\<close> removes it from the pending ones.
\<close>

definition setTimeout :: "nat \<Rightarrow> nat \<Rightarrow> 'e PhotoLayer \<Rightarrow> nat \<times> 'e PhotoLayer" where
  "setTimeout cr delay st =
     (nextHandle st,
      call (CallSetTimeout (nextHandle st) delay)
        (st\<lparr>timers := timers st @ [(nextHandle st, cr)], nextHandle := Suc (nextHandle st)\<rparr>))"

definition clearTimeout :: "nat \<Rightarrow> 'e PhotoLayer \<Rightarrow> 'e PhotoLayer" where
  "clearTimeout h st =
     call (CallClearTimeout h) (st\<lparr>timers := filter (\<lambda>t. fst t \<noteq> h) (timers st)\<rparr>)"

section \<open>The methods of PhotoLayer\<close>

text \<open>\<open>setLoadingState\<close>, lines 82-87.\<close>

definition setLoadingState :: "'e PhotoLayerLoadingState \<Rightarrow> 'e PhotoLayer \<Rightarrow> 'e PhotoLayer" where
  "setLoadingState loadingState st =
     (if Some loadingState \<noteq> prevLoadingState st
      then call (OnLoadingStateChange loadingState) (st\<lparr>prevLoadingState := Some loadingState\<rparr>)
      else st)"

text \<open>The size object built at lines 91 and 118.\<close>

definition textureSize :: "Texture \<Rightarrow> Size" where
  "textureSize t = \<lparr>width = width t, height = height t\<rparr>"

text \<open>
  \<open>updateCanvas\<close>, lines 113-121: the base texture. The local \<open>canvasChanged\<close> is
  threaded through the steps together with the state.
\<close>

definition updateCanvas_texture ::
    "nat \<Rightarrow> 'e TextureCache \<Rightarrow> bool \<times> 'e PhotoLayer \<Rightarrow> bool \<times> 'e PhotoLayer" where
  "updateCanvas_texture cr tc cs =
     (let canvasChanged = fst cs; st = snd cs in
      if canvasImagePath st \<noteq> Some (imagePath (props st)) then
        (let texture = getTexture tc (imagePath (props st));
             st1 = setBaseTexture cr texture False st;
             st2 = st1\<lparr>canvasImagePath :=
                     (case texture of Some _ \<Rightarrow> Some (imagePath (props st)) | None \<Rightarrow> None)\<rparr>;
             st3 = (case texture of Some t \<Rightarrow> call (OnTextureChange (textureSize t)) st2
                    | None \<Rightarrow> st2)
         in (True, st3))
      else (canvasChanged, st))"

text \<open>Lines 123-127: the element's size.\<close>

definition updateCanvas_bodySize ::
    "nat \<Rightarrow> PartialProps \<Rightarrow> bool \<times> 'e PhotoLayer \<Rightarrow> bool \<times> 'e PhotoLayer" where
  "updateCanvas_bodySize cr prevProps cs =
     (let canvasChanged = fst cs; st = snd cs in
      if bodySizeDiffers (props st) prevProps then
        (let s = contents (bodySize (props st)) in
         (canvasChanged,
          call (CallSetStyleSize cr (width s) (height s))
            (onCanvas cr (\<lambda>c. c\<lparr>element := (element c)\<lparr>styleWidth := Some (width s),
               styleHeight := Some (height s)\<rparr>\<rparr>) st)))
      else (canvasChanged, st))"

text \<open>Lines 129-132: the clip rectangle.\<close>

definition updateCanvas_clipRect ::
    "nat \<Rightarrow> PartialProps \<Rightarrow> bool \<times> 'e PhotoLayer \<Rightarrow> bool \<times> 'e PhotoLayer" where
  "updateCanvas_clipRect cr prevProps cs =
     (let canvasChanged = fst cs; st = snd cs in
      if modeDiffers (props st) prevProps \<or> cameraMetricsDiffers (props st) prevProps then
        (True,
         setClipRect cr
           (case cameraMetrics (props st) of
              Some m \<Rightarrow> if mode (props st) = ''view'' then Some (cropRect (contents m)) else None
            | None \<Rightarrow> None) st)
      else (canvasChanged, st))"

text \<open>Lines 134-142: size and matrices.\<close>

definition updateCanvas_camera ::
    "nat \<Rightarrow> PartialProps \<Rightarrow> bool \<times> 'e PhotoLayer \<Rightarrow> bool \<times> 'e PhotoLayer" where
  "updateCanvas_camera cr prevProps cs =
     (let canvasChanged = fst cs; st = snd cs in
      if cameraMetricsDiffers (props st) prevProps then
        (True,
         case cameraMetrics (props st) of
           Some m \<Rightarrow>
             setCameraMatrix cr (cameraMatrix (contents m))
               (setProjectionMatrix cr (projectionMatrix (contents m))
                 (setSize cr (canvasSize (contents m)) st))
         | None \<Rightarrow> st)
      else (canvasChanged, st))"

text \<open>The callback of the deferred hide, lines 157-159.\<close>

definition deferredHide :: "nat \<Rightarrow> 'e PhotoLayer \<Rightarrow> 'e PhotoLayer" where
  "deferredHide cr st =
     setLoadingState Loading (setDisplay cr ''none'' (st\<lparr>deferredHideCanvasTimeout := None\<rparr>))"

text \<open>Lines 144-162: show the canvas, or start the deferred hide.\<close>

definition updateCanvas_show ::
    "(PhotoCanvas \<Rightarrow> bool) \<Rightarrow> nat \<Rightarrow> bool \<times> 'e PhotoLayer \<Rightarrow> 'e PhotoLayer" where
  "updateCanvas_show valid cr cs =
     (let canvasChanged = fst cs; st = snd cs in
      if canvasChanged then
        if cameraMetrics (props st) \<noteq> None \<and> valid (store st cr) then
          (let st1 = (case deferredHideCanvasTimeout st of
                        Some h \<Rightarrow> (clearTimeout h st)\<lparr>deferredHideCanvasTimeout := None\<rparr>
                      | None \<Rightarrow> st)
           in setLoadingState Done (setDisplay cr ''block'' (update cr st1)))
        else if deferredHideCanvasTimeout st = None then
          (let hs = setTimeout cr 100 st in (snd hs)\<lparr>deferredHideCanvasTimeout := Some (fst hs)\<rparr>)
        else st
      else st)"

text \<open>
  Lines 111-142: the value of \<open>canvasChanged\<close> and the state when line 144 is reached.
\<close>

definition updateCanvas_changes ::
    "nat \<Rightarrow> 'e TextureCache \<Rightarrow> PartialProps \<Rightarrow> 'e PhotoLayer \<Rightarrow> bool \<times> 'e PhotoLayer" where
  "updateCanvas_changes cr tc prevProps st =
     updateCanvas_camera cr prevProps
       (updateCanvas_clipRect cr prevProps
         (updateCanvas_bodySize cr prevProps
           (updateCanvas_texture cr tc (False, st))))"

text \<open>Line 102: the interest list, as the source writes it.\<close>

definition interest :: "Props \<Rightarrow> string option list" where
  "interest p = [Some (imagePath p), imagePathNext p, imagePathPrev p]"

text \<open>Line 102: the interest list is declared to the texture cache.\<close>

definition updateCanvas_declare :: "'e TextureCache \<Rightarrow> 'e PhotoLayer \<Rightarrow> 'e PhotoLayer" where
  "updateCanvas_declare tc st =
     call (CallSetImagesToFetch (interest (props st)))
       (st\<lparr>textureCache := Some (setImagesToFetch (interest (props st)) tc)\<rparr>)"

text \<open>
  \<open>updateCanvas\<close>, lines 96-163. A \<open>TextureError\<close> is never falsy, so the test of line 105
  is the test for an error that is not null.
\<close>

definition updateCanvas ::
    "(PhotoCanvas \<Rightarrow> bool) \<Rightarrow> PartialProps \<Rightarrow> 'e PhotoLayer \<Rightarrow> 'e PhotoLayer" where
  "updateCanvas valid prevProps st =
     (case canvas st of
        None \<Rightarrow> st
      | Some cr \<Rightarrow>
         (case textureCache st of
            None \<Rightarrow> st
          | Some tc0 \<Rightarrow>
             (let st1 = updateCanvas_declare tc0 st;
                  tc = setImagesToFetch (interest (props st)) tc0
              in case getTextureError tc (imagePath (props st)) of
                   Some textureError \<Rightarrow>
                     setLoadingState (Failed textureError) (setDisplay cr ''none'' st1)
                 | None \<Rightarrow>
                     updateCanvas_show valid cr (updateCanvas_changes cr tc prevProps st1))))"

text \<open>\<open>onTextureFetched\<close>, lines 89-94.\<close>

definition onTextureFetched ::
    "(PhotoCanvas \<Rightarrow> bool) \<Rightarrow> string \<Rightarrow> Texture option \<Rightarrow> 'e PhotoLayer \<Rightarrow> 'e PhotoLayer" where
  "onTextureFetched valid path texture st =
     updateCanvas valid (asPartial (props st))
       (case texture of
          Some t \<Rightarrow> if path = imagePath (props st)
                    then call (OnTextureChange (textureSize t)) st else st
        | None \<Rightarrow> st)"

text \<open>\<open>componentDidMount\<close>, lines 52-68.\<close>

definition componentDidMount :: "(PhotoCanvas \<Rightarrow> bool) \<Rightarrow> 'e PhotoLayer \<Rightarrow> 'e PhotoLayer" where
  "componentDidMount valid st =
     (let cr = nextRef st;
          c = newPhotoCanvas\<lparr>element := (element newPhotoCanvas)\<lparr>
                className := ''PhotoLayer-canvas'', display := ''none'', parentNode := True\<rparr>\<rparr>;
          st1 = call (CallAppendChild cr)
                  (st\<lparr>canvas := Some cr, store := (store st)(cr := c), nextRef := Suc cr\<rparr>);
          st2 = st1\<lparr>textureCache := Some (newTextureCache cr 5)\<rparr>
      in updateCanvas valid emptyProps st2)"

text \<open>
  \<open>componentWillUnmount\<close>, lines 70-76. \<open>parentNode!\<close> is not checked when the program
  runs: on an element that has no parent, \<open>removeChild\<close> is called on \<open>null\<close> and a
  TypeError is thrown before the field is cleared.
\<close>

datatype error = TypeError

definition componentWillUnmount :: "'e PhotoLayer \<Rightarrow> error + 'e PhotoLayer" where
  "componentWillUnmount st =
     (case canvas st of
        None \<Rightarrow> Inr st
      | Some cr \<Rightarrow>
          if parentNode (element (store st cr)) then
            Inr ((call (CallRemoveChild cr)
                   (onCanvas cr (\<lambda>c. c\<lparr>element := (element c)\<lparr>parentNode := False\<rparr>\<rparr>) st))
                 \<lparr>canvas := None\<rparr>)
          else Inl TypeError)"

text \<open>\<open>componentDidUpdate\<close>, lines 78-80.\<close>

definition componentDidUpdate ::
    "(PhotoCanvas \<Rightarrow> bool) \<Rightarrow> PartialProps \<Rightarrow> 'e PhotoLayer \<Rightarrow> 'e PhotoLayer" where
  "componentDidUpdate valid prevProps st = updateCanvas valid prevProps st"

section \<open>What happens to a PhotoLayer\<close>

text \<open>
  The event loop runs a pending timeout: its callback is the closure of line 156. A
  handle that is not pending (cleared, or fired before) runs nothing.
\<close>

definition fireTimeout :: "nat \<Rightarrow> 'e PhotoLayer \<Rightarrow> 'e PhotoLayer" where
  "fireTimeout h st =
     (case map_of (timers st) h of
        None \<Rightarrow> st
      | Some cr \<Rightarrow> deferredHide cr (st\<lparr>timers := filter (\<lambda>t. fst t \<noteq> h) (timers st)\<rparr>))"

text \<open>
  The events that reach a PhotoLayer: React mounts it, renders it again with new props
  (and then calls \<open>componentDidUpdate\<close> with the previous ones), unmounts it; the texture
  cache changes its contents when a fetch ends, and reports it to \<open>onTextureFetched\<close>;
  a timeout fires.
\<close>

datatype 'e event =
    Mount
  | Rerender Props
  | Unmount
  | CacheChange "'e TextureCache \<Rightarrow> 'e TextureCache"
  | TextureFetched string "Texture option"
  | TimeoutFired nat

fun step :: "(PhotoCanvas \<Rightarrow> bool) \<Rightarrow> 'e PhotoLayer \<Rightarrow> 'e event \<Rightarrow> 'e PhotoLayer" where
  "step valid st Mount = componentDidMount valid st"
| "step valid st (Rerender p) = componentDidUpdate valid (asPartial (props st)) (st\<lparr>props := p\<rparr>)"
| "step valid st Unmount = (case componentWillUnmount st of Inr st' \<Rightarrow> st' | Inl _ \<Rightarrow> st)"
| "step valid st (CacheChange f) = st\<lparr>textureCache := map_option f (textureCache st)\<rparr>"
| "step valid st (TextureFetched path t) = onTextureFetched valid path t st"
| "step valid st (TimeoutFired h) = fireTimeout h st"

definition run :: "(PhotoCanvas \<Rightarrow> bool) \<Rightarrow> 'e PhotoLayer \<Rightarrow> 'e event list \<Rightarrow> 'e PhotoLayer" where
  "run valid st evs = foldl (step valid) st evs"

section \<open>Notions used by the properties\<close>

text \<open>The loading states reported to \<open>onLoadingStateChange\<close>, in order.\<close>

fun notifications :: "'e call list \<Rightarrow> 'e PhotoLayerLoadingState list" where
  "notifications [] = []"
| "notifications (OnLoadingStateChange l # cs) = l # notifications cs"
| "notifications (_ # cs) = notifications cs"

definition lastNotified :: "'e call list \<Rightarrow> 'e PhotoLayerLoadingState option" where
  "lastNotified cs = (if notifications cs = [] then None else Some (last (notifications cs)))"

text \<open>A sequence of loading-state transitions.\<close>

definition setLoadingStates ::
    "'e PhotoLayerLoadingState list \<Rightarrow> 'e PhotoLayer \<Rightarrow> 'e PhotoLayer" where
  "setLoadingStates ls st = foldl (\<lambda>s l. setLoadingState l s) st ls"

text \<open>The handles of the timeouts that are pending in the event loop.\<close>

definition pendingHandles :: "'e PhotoLayer \<Rightarrow> nat list" where
  "pendingHandles st = map fst (timers st)"

text \<open>
  The field \<open>deferredHideCanvasTimeout\<close> holds exactly the pending timeouts, and
  \<open>prevLoadingState\<close> is the state that was notified last.
\<close>

definition inv :: "'e PhotoLayer \<Rightarrow> bool" where
  "inv st =
     (pendingHandles st = (case deferredHideCanvasTimeout st of None \<Rightarrow> [] | Some h \<Rightarrow> [h])
      \<and> prevLoadingState st = lastNotified (calls st))"

text \<open>
  The interest list in the words of the specification: previous, current and next path,
  without the null entries.
\<close>

definition specInterest :: "Props \<Rightarrow> string list" where
  "specInterest p = [x. Some x \<leftarrow> [imagePathPrev p, Some (imagePath p), imagePathNext p]]"

text \<open>
  Fetches that end after the unmount: the texture cache reports each of them to
  \<open>onTextureFetched\<close>.
\<close>

definition lateFetches ::
    "(PhotoCanvas \<Rightarrow> bool) \<Rightarrow> (string \<times> Texture option) list \<Rightarrow> 'e PhotoLayer \<Rightarrow> 'e PhotoLayer" where
  "lateFetches valid fs st = foldl (\<lambda>s f. onTextureFetched valid (fst f) (snd f) s) st fs"

text \<open>The element of the canvas that the field \<open>canvas\<close> refers to is in the document.\<close>

definition attached :: "'e PhotoLayer \<Rightarrow> bool" where
  "attached st =
     (case canvas st of None \<Rightarrow> True | Some cr \<Rightarrow> parentNode (element (store st cr)))"

section \<open>Concrete inputs\<close>

text \<open>
  One answer that \<open>isValid()\<close> can give, used at the concrete inputs below: the canvas is
  valid when it has a base texture, a size and both matrices.
\<close>

definition exampleValid :: "PhotoCanvas \<Rightarrow> bool" where
  "exampleValid c =
     (baseTexture c \<noteq> None \<and> pixelSize c \<noteq> None \<and> projection c \<noteq> None \<and> camera c \<noteq> None)"

definition exProps :: Props where
  "exProps = \<lparr>mode = ''view'', bodySize = Obj 1 \<lparr>width = 800, height = 600\<rparr>,
     imagePath = ''/a.jpg'', imagePathPrev = Some ''/p.jpg'', imagePathNext = None,
     cameraMetrics = None\<rparr>"

definition exMetrics :: "CameraMetrics obj" where
  "exMetrics = Obj 2 \<lparr>canvasSize = \<lparr>width = 800, height = 600\<rparr>, projectionMatrix = [1, 0, 0, 1],
     cameraMatrix = [2, 0, 0, 2], cropRect = (0, 0, 400, 300)\<rparr>"

definition exMetricsMoved :: "CameraMetrics obj" where
  "exMetricsMoved = Obj 4 \<lparr>canvasSize = \<lparr>width = 800, height = 600\<rparr>,
     projectionMatrix = [1, 0, 0, 1], cameraMatrix = [3, 0, 0, 3], cropRect = (0, 0, 400, 300)\<rparr>"

definition exPropsCamera :: Props where
  "exPropsCamera = exProps\<lparr>cameraMetrics := Some exMetrics\<rparr>"

definition exPropsResized :: Props where
  "exPropsResized = exPropsCamera\<lparr>bodySize := Obj 3 \<lparr>width = 1024, height = 768\<rparr>\<rparr>"

definition exPropsMoved :: Props where
  "exPropsMoved = exProps\<lparr>cameraMetrics := Some exMetricsMoved\<rparr>"

definition exTexture :: Texture where
  "exTexture = \<lparr>width = 400, height = 300, textureId = 7\<rparr>"

text \<open>The cache after the fetch of \<open>/a.jpg\<close> has ended: with a texture, or with an error.\<close>

definition exDecoded :: "string TextureCache \<Rightarrow> string TextureCache" where
  "exDecoded tc = tc\<lparr>textures := (textures tc)(''/a.jpg'' := Some exTexture)\<rparr>"

definition exFail :: "string TextureCache \<Rightarrow> string TextureCache" where
  "exFail tc = tc\<lparr>errors := (errors tc)(''/a.jpg'' := Some ''decode-failure'')\<rparr>"

definition exCache :: "string TextureCache" where
  "exCache = setImagesToFetch (interest exProps) (newTextureCache 0 5)"

text \<open>A mounted layer that waits for its texture; the deferred hide is pending.\<close>

definition exMounted :: "string PhotoLayer" where
  "exMounted = run exampleValid (newPhotoLayer exProps) [Mount]"

text \<open>The fetch has failed; the texture cache has not reported it yet.\<close>

definition exFailed :: "string PhotoLayer" where
  "exFailed = run exampleValid (newPhotoLayer exProps) [Mount, CacheChange exFail]"

text \<open>The texture is in the cache and not bound yet.\<close>

definition exReady :: "string PhotoLayer" where
  "exReady = run exampleValid (newPhotoLayer exProps) [Mount, CacheChange exDecoded]"

text \<open>React has set props with camera metrics and is about to call \<open>componentDidUpdate\<close>.\<close>

definition exRerendered :: "string PhotoLayer" where
  "exRerendered = exReady\<lparr>props := exPropsCamera\<rparr>"

text \<open>The photo is shown.\<close>

definition exShown :: "string PhotoLayer" where
  "exShown = run exampleValid (newPhotoLayer exProps)
     [Mount, CacheChange exDecoded, Rerender exPropsCamera]"

text \<open>The photo is shown and props arrive that differ in the body size only.\<close>

definition exResized :: "string PhotoLayer" where
  "exResized = exShown\<lparr>props := exPropsResized\<rparr>"

text \<open>The photo is shown and props arrive with new camera metrics.\<close>

definition exMoved :: "string PhotoLayer" where
  "exMoved = exShown\<lparr>props := exPropsMoved\<rparr>"

text \<open>The deferred hide has fired on the mounted layer.\<close>

definition exHidden :: "string PhotoLayer" where
  "exHidden = run exampleValid (newPhotoLayer exProps) [Mount, TimeoutFired 1]"

definition exUnmounted :: "string PhotoLayer" where
  "exUnmounted = run exampleValid (newPhotoLayer exProps) [Mount, Unmount]"

section \<open>How the steps act on the fields\<close>

lemmas canvas_defs = setDisplay_def setBaseTexture_def setClipRect_def
  setSize_def setProjectionMatrix_def setCameraMatrix_def update_def

lemmas step_defs = updateCanvas_texture_def updateCanvas_bodySize_def updateCanvas_clipRect_def
  updateCanvas_camera_def

lemma notifications_append [simp]:
  "notifications (xs @ ys) = notifications xs @ notifications ys"
  by (induction xs rule: notifications.induct) simp_all

lemma call_fields [simp]:
  "props (call c st) = props st"
  "canvas (call c st) = canvas st"
  "textureCache (call c st) = textureCache st"
  "canvasImagePath (call c st) = canvasImagePath st"
  "deferredHideCanvasTimeout (call c st) = deferredHideCanvasTimeout st"
  "prevLoadingState (call c st) = prevLoadingState st"
  "store (call c st) = store st"
  "nextRef (call c st) = nextRef st"
  "timers (call c st) = timers st"
  "nextHandle (call c st) = nextHandle st"
  "calls (call c st) = calls st @ [c]"
  by (simp_all add: call_def)

lemma onCanvas_fields [simp]:
  "props (onCanvas cr f st) = props st"
  "canvas (onCanvas cr f st) = canvas st"
  "textureCache (onCanvas cr f st) = textureCache st"
  "canvasImagePath (onCanvas cr f st) = canvasImagePath st"
  "deferredHideCanvasTimeout (onCanvas cr f st) = deferredHideCanvasTimeout st"
  "prevLoadingState (onCanvas cr f st) = prevLoadingState st"
  "store (onCanvas cr f st) = (store st)(cr := f (store st cr))"
  "nextRef (onCanvas cr f st) = nextRef st"
  "timers (onCanvas cr f st) = timers st"
  "nextHandle (onCanvas cr f st) = nextHandle st"
  "calls (onCanvas cr f st) = calls st"
  by (simp_all add: onCanvas_def)

lemma setLoadingState_fields [simp]:
  "props (setLoadingState l st) = props st"
  "canvas (setLoadingState l st) = canvas st"
  "textureCache (setLoadingState l st) = textureCache st"
  "canvasImagePath (setLoadingState l st) = canvasImagePath st"
  "deferredHideCanvasTimeout (setLoadingState l st) = deferredHideCanvasTimeout st"
  "prevLoadingState (setLoadingState l st) = Some l"
  "store (setLoadingState l st) = store st"
  "nextRef (setLoadingState l st) = nextRef st"
  "timers (setLoadingState l st) = timers st"
  "nextHandle (setLoadingState l st) = nextHandle st"
  "calls (setLoadingState l st) =
     calls st @ (if prevLoadingState st = Some l then [] else [OnLoadingStateChange l])"
  by (auto simp add: setLoadingState_def)

text \<open>The four steps of lines 111-142 touch neither timers nor loading state.\<close>

lemma texture_fields [simp]:
  "props (snd (updateCanvas_texture cr tc cs)) = props (snd cs)"
  "canvas (snd (updateCanvas_texture cr tc cs)) = canvas (snd cs)"
  "textureCache (snd (updateCanvas_texture cr tc cs)) = textureCache (snd cs)"
  "deferredHideCanvasTimeout (snd (updateCanvas_texture cr tc cs)) = deferredHideCanvasTimeout (snd cs)"
  "prevLoadingState (snd (updateCanvas_texture cr tc cs)) = prevLoadingState (snd cs)"
  "nextRef (snd (updateCanvas_texture cr tc cs)) = nextRef (snd cs)"
  "timers (snd (updateCanvas_texture cr tc cs)) = timers (snd cs)"
  "nextHandle (snd (updateCanvas_texture cr tc cs)) = nextHandle (snd cs)"
  "notifications (calls (snd (updateCanvas_texture cr tc cs))) = notifications (calls (snd cs))"
  by (simp_all add: updateCanvas_texture_def Let_def canvas_defs split: option.splits)

lemma bodySize_fields [simp]:
  "props (snd (updateCanvas_bodySize cr pp cs)) = props (snd cs)"
  "canvas (snd (updateCanvas_bodySize cr pp cs)) = canvas (snd cs)"
  "textureCache (snd (updateCanvas_bodySize cr pp cs)) = textureCache (snd cs)"
  "canvasImagePath (snd (updateCanvas_bodySize cr pp cs)) = canvasImagePath (snd cs)"
  "deferredHideCanvasTimeout (snd (updateCanvas_bodySize cr pp cs)) = deferredHideCanvasTimeout (snd cs)"
  "prevLoadingState (snd (updateCanvas_bodySize cr pp cs)) = prevLoadingState (snd cs)"
  "nextRef (snd (updateCanvas_bodySize cr pp cs)) = nextRef (snd cs)"
  "timers (snd (updateCanvas_bodySize cr pp cs)) = timers (snd cs)"
  "nextHandle (snd (updateCanvas_bodySize cr pp cs)) = nextHandle (snd cs)"
  "notifications (calls (snd (updateCanvas_bodySize cr pp cs))) = notifications (calls (snd cs))"
  "fst (updateCanvas_bodySize cr pp cs) = fst cs"
  by (simp_all add: updateCanvas_bodySize_def Let_def)

lemma clipRect_fields [simp]:
  "props (snd (updateCanvas_clipRect cr pp cs)) = props (snd cs)"
  "canvas (snd (updateCanvas_clipRect cr pp cs)) = canvas (snd cs)"
  "textureCache (snd (updateCanvas_clipRect cr pp cs)) = textureCache (snd cs)"
  "canvasImagePath (snd (updateCanvas_clipRect cr pp cs)) = canvasImagePath (snd cs)"
  "deferredHideCanvasTimeout (snd (updateCanvas_clipRect cr pp cs)) = deferredHideCanvasTimeout (snd cs)"
  "prevLoadingState (snd (updateCanvas_clipRect cr pp cs)) = prevLoadingState (snd cs)"
  "nextRef (snd (updateCanvas_clipRect cr pp cs)) = nextRef (snd cs)"
  "timers (snd (updateCanvas_clipRect cr pp cs)) = timers (snd cs)"
  "nextHandle (snd (updateCanvas_clipRect cr pp cs)) = nextHandle (snd cs)"
  "notifications (calls (snd (updateCanvas_clipRect cr pp cs))) = notifications (calls (snd cs))"
  by (simp_all add: updateCanvas_clipRect_def Let_def canvas_defs)

lemma camera_fields [simp]:
  "props (snd (updateCanvas_camera cr pp cs)) = props (snd cs)"
  "canvas (snd (updateCanvas_camera cr pp cs)) = canvas (snd cs)"
  "textureCache (snd (updateCanvas_camera cr pp cs)) = textureCache (snd cs)"
  "canvasImagePath (snd (updateCanvas_camera cr pp cs)) = canvasImagePath (snd cs)"
  "deferredHideCanvasTimeout (snd (updateCanvas_camera cr pp cs)) = deferredHideCanvasTimeout (snd cs)"
  "prevLoadingState (snd (updateCanvas_camera cr pp cs)) = prevLoadingState (snd cs)"
  "nextRef (snd (updateCanvas_camera cr pp cs)) = nextRef (snd cs)"
  "timers (snd (updateCanvas_camera cr pp cs)) = timers (snd cs)"
  "nextHandle (snd (updateCanvas_camera cr pp cs)) = nextHandle (snd cs)"
  "notifications (calls (snd (updateCanvas_camera cr pp cs))) = notifications (calls (snd cs))"
  by (simp_all add: updateCanvas_camera_def Let_def canvas_defs split: option.splits)

lemma changes_fields [simp]:
  "props (snd (updateCanvas_changes cr tc pp st)) = props st"
  "canvas (snd (updateCanvas_changes cr tc pp st)) = canvas st"
  "textureCache (snd (updateCanvas_changes cr tc pp st)) = textureCache st"
  "deferredHideCanvasTimeout (snd (updateCanvas_changes cr tc pp st)) = deferredHideCanvasTimeout st"
  "prevLoadingState (snd (updateCanvas_changes cr tc pp st)) = prevLoadingState st"
  "nextRef (snd (updateCanvas_changes cr tc pp st)) = nextRef st"
  "timers (snd (updateCanvas_changes cr tc pp st)) = timers st"
  "nextHandle (snd (updateCanvas_changes cr tc pp st)) = nextHandle st"
  "notifications (calls (snd (updateCanvas_changes cr tc pp st))) = notifications (calls st)"
  by (simp_all add: updateCanvas_changes_def)

lemma changed_iff:
  "fst (updateCanvas_changes cr tc pp st) =
     (canvasImagePath st \<noteq> Some (imagePath (props st)) \<or> modeDiffers (props st) pp
        \<or> cameraMetricsDiffers (props st) pp)"
  by (simp add: updateCanvas_changes_def step_defs Let_def)

lemma inv_cong:
  "timers st' = timers st \<Longrightarrow> deferredHideCanvasTimeout st' = deferredHideCanvasTimeout st \<Longrightarrow>
   prevLoadingState st' = prevLoadingState st \<Longrightarrow>
   notifications (calls st') = notifications (calls st) \<Longrightarrow> inv st' = inv st"
  by (simp add: inv_def pendingHandles_def lastNotified_def)

lemma inv_setLoadingState: "inv st \<Longrightarrow> inv (setLoadingState l st)"
  by (auto simp add: inv_def pendingHandles_def lastNotified_def)

lemma inv_setDisplay [simp]: "inv (setDisplay cr d st) = inv st"
  by (rule inv_cong) (simp_all add: setDisplay_def)

lemma inv_update [simp]: "inv (update cr st) = inv st"
  by (rule inv_cong) (simp_all add: update_def)

lemma inv_changes: "inv (snd (updateCanvas_changes cr tc pp st)) = inv st"
  by (rule inv_cong) simp_all

lemma filter_single: "map fst ts = [h] \<Longrightarrow> filter (\<lambda>t. fst t \<noteq> h) ts = []"
  by (cases ts) auto

lemma inv_clear:
  "inv st \<Longrightarrow> deferredHideCanvasTimeout st = Some h \<Longrightarrow>
   inv ((clearTimeout h st)\<lparr>deferredHideCanvasTimeout := None\<rparr>)"
  by (simp add: inv_def pendingHandles_def lastNotified_def clearTimeout_def filter_single)

lemma inv_setTimeout:
  "inv st \<Longrightarrow> deferredHideCanvasTimeout st = None \<Longrightarrow>
   inv ((snd (setTimeout cr d st))\<lparr>deferredHideCanvasTimeout := Some (fst (setTimeout cr d st))\<rparr>)"
  by (simp add: inv_def pendingHandles_def lastNotified_def setTimeout_def call_def)

lemma inv_show: "inv (snd cs) \<Longrightarrow> inv (updateCanvas_show valid cr cs)"
  by (auto simp add: updateCanvas_show_def Let_def inv_setLoadingState inv_clear inv_setTimeout
      split: option.splits)

lemma declare_fields [simp]:
  "props (updateCanvas_declare tc st) = props st"
  "canvas (updateCanvas_declare tc st) = canvas st"
  "textureCache (updateCanvas_declare tc st) = Some (setImagesToFetch (interest (props st)) tc)"
  "canvasImagePath (updateCanvas_declare tc st) = canvasImagePath st"
  "deferredHideCanvasTimeout (updateCanvas_declare tc st) = deferredHideCanvasTimeout st"
  "prevLoadingState (updateCanvas_declare tc st) = prevLoadingState st"
  "store (updateCanvas_declare tc st) = store st"
  "nextRef (updateCanvas_declare tc st) = nextRef st"
  "timers (updateCanvas_declare tc st) = timers st"
  "nextHandle (updateCanvas_declare tc st) = nextHandle st"
  "calls (updateCanvas_declare tc st) = calls st @ [CallSetImagesToFetch (interest (props st))]"
  by (simp_all add: updateCanvas_declare_def)

lemma inv_declare: "inv (updateCanvas_declare tc st) = inv st"
  by (rule inv_cong) simp_all

lemma inv_updateCanvas: "inv st \<Longrightarrow> inv (updateCanvas valid pp st)"
  by (simp add: updateCanvas_def Let_def inv_setLoadingState inv_show inv_changes inv_declare
      split: option.splits)

lemma inv_onTextureFetched: "inv st \<Longrightarrow> inv (onTextureFetched valid path t st)"
proof -
  assume i: "inv st"
  have "inv (call (OnTextureChange s) st)" for s
    using i inv_cong [of "call (OnTextureChange s) st" st] by simp
  with i show ?thesis
    by (simp add: onTextureFetched_def inv_updateCanvas split: option.splits)
qed

lemma inv_componentDidMount: "inv st \<Longrightarrow> inv (componentDidMount valid st)"
proof -
  assume i: "inv st"
  have "inv ((call (CallAppendChild cr) (st\<lparr>canvas := c, store := s, nextRef := n\<rparr>))\<lparr>textureCache := tc\<rparr>)"
    for cr c s n tc
    using i
    inv_cong [of "(call (CallAppendChild cr) (st\<lparr>canvas := c, store := s, nextRef := n\<rparr>))\<lparr>textureCache := tc\<rparr>" st]
    by simp
  then show ?thesis
    by (simp add: componentDidMount_def Let_def inv_updateCanvas)
qed

lemma inv_componentWillUnmount: "inv st \<Longrightarrow> componentWillUnmount st = Inr st' \<Longrightarrow> inv st'"
proof -
  assume i: "inv st" and u: "componentWillUnmount st = Inr st'"
  have "inv ((call (CallRemoveChild cr) (onCanvas cr f st))\<lparr>canvas := None\<rparr>)" for cr f
    using i inv_cong [of "(call (CallRemoveChild cr) (onCanvas cr f st))\<lparr>canvas := None\<rparr>" st]
    by simp
  with i u show ?thesis
    by (auto simp add: componentWillUnmount_def split: option.splits if_splits)
qed

lemma inv_fireTimeout: "inv st \<Longrightarrow> inv (fireTimeout h st)"
proof (cases "map_of (timers st) h")
  case None
  assume "inv st"
  with None show ?thesis by (simp add: fireTimeout_def)
next
  case (Some cr)
  assume i: "inv st"
  from Some have m: "(h, cr) \<in> set (timers st)" by (rule map_of_SomeD)
  from i m obtain h' where f: "deferredHideCanvasTimeout st = Some h'" and t: "map fst (timers st) = [h']"
    by (cases "deferredHideCanvasTimeout st") (auto simp add: inv_def pendingHandles_def)
  from t m have hh: "h' = h" by (cases "timers st") auto
  from t hh have e: "filter (\<lambda>t. fst t \<noteq> h) (timers st) = []" by (simp add: filter_single)
  have "inv (st\<lparr>timers := [], deferredHideCanvasTimeout := None\<rparr>)"
    using i by (simp add: inv_def pendingHandles_def)
  then have "inv (setDisplay cr ''none'' (st\<lparr>timers := [], deferredHideCanvasTimeout := None\<rparr>))"
    by simp
  then have "inv (deferredHide cr (st\<lparr>timers := []\<rparr>))"
    by (simp add: deferredHide_def inv_setLoadingState)
  with Some e show ?thesis by (simp add: fireTimeout_def)
qed

lemma inv_step: "inv st \<Longrightarrow> inv (step valid st ev)"
proof (cases ev)
  case (Rerender p)
  assume i: "inv st"
  have "inv (st\<lparr>props := p\<rparr>)" using i inv_cong [of "st\<lparr>props := p\<rparr>" st] by simp
  with Rerender show ?thesis by (simp add: componentDidUpdate_def inv_updateCanvas)
next
  case (CacheChange f)
  assume i: "inv st"
  have "inv (st\<lparr>textureCache := map_option f (textureCache st)\<rparr>)"
    using i inv_cong [of "st\<lparr>textureCache := map_option f (textureCache st)\<rparr>" st] by simp
  with CacheChange show ?thesis by simp
next
  case Unmount
  assume "inv st"
  with Unmount show ?thesis by (auto simp add: inv_componentWillUnmount split: sum.splits)
qed (simp_all add: inv_componentDidMount inv_onTextureFetched inv_fireTimeout)

lemma inv_run: "inv st \<Longrightarrow> inv (run valid st evs)"
  unfolding run_def by (induction evs arbitrary: st) (simp_all add: inv_step)

lemma inv_new: "inv (newPhotoLayer p)"
  by (simp add: inv_def pendingHandles_def lastNotified_def newPhotoLayer_def)

section \<open>The calls only grow\<close>

lemma prefix_setLoadingState: "prefix (calls st) (calls (setLoadingState l st))"
  by simp

lemma prefix_texture: "prefix (calls (snd cs)) (calls (snd (updateCanvas_texture cr tc cs)))"
  by (simp add: updateCanvas_texture_def Let_def canvas_defs split: option.splits)

lemma prefix_bodySize: "prefix (calls (snd cs)) (calls (snd (updateCanvas_bodySize cr pp cs)))"
  by (simp add: updateCanvas_bodySize_def Let_def)

lemma prefix_clipRect: "prefix (calls (snd cs)) (calls (snd (updateCanvas_clipRect cr pp cs)))"
  by (simp add: updateCanvas_clipRect_def Let_def canvas_defs)

lemma prefix_camera: "prefix (calls (snd cs)) (calls (snd (updateCanvas_camera cr pp cs)))"
  by (simp add: updateCanvas_camera_def Let_def canvas_defs split: option.splits)

lemma prefix_changes: "prefix (calls st) (calls (snd (updateCanvas_changes cr tc pp st)))"
proof -
  have "prefix (calls st) (calls (snd (updateCanvas_texture cr tc (False, st))))"
    using prefix_texture [of "(False, st)" cr tc] by simp
  also have "prefix \<dots> (calls (snd (updateCanvas_bodySize cr pp (updateCanvas_texture cr tc (False, st)))))"
    by (rule prefix_bodySize)
  also have "prefix \<dots> (calls (snd (updateCanvas_clipRect cr pp
      (updateCanvas_bodySize cr pp (updateCanvas_texture cr tc (False, st))))))"
    by (rule prefix_clipRect)
  also have "prefix \<dots> (calls (snd (updateCanvas_changes cr tc pp st)))"
    unfolding updateCanvas_changes_def by (rule prefix_camera)
  finally show ?thesis .
qed

lemma prefix_show: "prefix (calls (snd cs)) (calls (updateCanvas_show valid cr cs))"
  by (simp add: updateCanvas_show_def Let_def canvas_defs setTimeout_def clearTimeout_def
      split: option.splits)

lemma show_fields [simp]:
  "props (updateCanvas_show valid cr cs) = props (snd cs)"
  "canvas (updateCanvas_show valid cr cs) = canvas (snd cs)"
  "textureCache (updateCanvas_show valid cr cs) = textureCache (snd cs)"
  "canvasImagePath (updateCanvas_show valid cr cs) = canvasImagePath (snd cs)"
  "nextRef (updateCanvas_show valid cr cs) = nextRef (snd cs)"
  by (simp_all add: updateCanvas_show_def Let_def canvas_defs setTimeout_def clearTimeout_def
      split: option.splits)

lemma getTextureError_setImagesToFetch [simp]:
  "getTextureError (setImagesToFetch l tc) path = getTextureError tc path"
  by (simp add: getTextureError_def setImagesToFetch_def)

lemma getTexture_setImagesToFetch [simp]:
  "getTexture (setImagesToFetch l tc) path = getTexture tc path"
  by (simp add: getTexture_def setImagesToFetch_def)

lemma remdups_adj_Cons_tl: "remdups_adj (x # xs) = x # tl (remdups_adj (x # xs))"
  by (cases xs) simp_all

lemma setLoadingStates_notifications:
  "notifications (calls (setLoadingStates ls st)) =
     notifications (calls st) @
       (case prevLoadingState st of None \<Rightarrow> remdups_adj ls | Some l0 \<Rightarrow> tl (remdups_adj (l0 # ls)))"
proof (induction ls arbitrary: st)
  case Nil
  show ?case by (simp add: setLoadingStates_def split: option.splits)
next
  case (Cons l ls)
  have "setLoadingStates (l # ls) st = setLoadingStates ls (setLoadingState l st)"
    by (simp add: setLoadingStates_def)
  then have "notifications (calls (setLoadingStates (l # ls) st)) =
      notifications (calls (setLoadingState l st)) @ tl (remdups_adj (l # ls))"
    using Cons.IH [of "setLoadingState l st"] by simp
  then show ?case
    using remdups_adj_Cons_tl [of l ls] by (auto split: option.splits)
qed

section \<open>What the steps leave alone in the canvas\<close>

lemma texture_store [simp]:
  "redraws (store (snd (updateCanvas_texture cr tc cs)) c) = redraws (store (snd cs) c)"
  "element (store (snd (updateCanvas_texture cr tc cs)) c) = element (store (snd cs) c)"
  by (simp_all add: updateCanvas_texture_def Let_def canvas_defs split: option.splits)

lemma bodySize_store [simp]:
  "baseTexture (store (snd (updateCanvas_bodySize cr pp cs)) c) = baseTexture (store (snd cs) c)"
  "redraws (store (snd (updateCanvas_bodySize cr pp cs)) c) = redraws (store (snd cs) c)"
  "display (element (store (snd (updateCanvas_bodySize cr pp cs)) c)) = display (element (store (snd cs) c))"
  by (simp_all add: updateCanvas_bodySize_def Let_def)

lemma clipRect_store [simp]:
  "baseTexture (store (snd (updateCanvas_clipRect cr pp cs)) c) = baseTexture (store (snd cs) c)"
  "redraws (store (snd (updateCanvas_clipRect cr pp cs)) c) = redraws (store (snd cs) c)"
  "element (store (snd (updateCanvas_clipRect cr pp cs)) c) = element (store (snd cs) c)"
  by (simp_all add: updateCanvas_clipRect_def Let_def canvas_defs)

lemma camera_store [simp]:
  "baseTexture (store (snd (updateCanvas_camera cr pp cs)) c) = baseTexture (store (snd cs) c)"
  "redraws (store (snd (updateCanvas_camera cr pp cs)) c) = redraws (store (snd cs) c)"
  "element (store (snd (updateCanvas_camera cr pp cs)) c) = element (store (snd cs) c)"
  by (simp_all add: updateCanvas_camera_def Let_def canvas_defs split: option.splits)

lemma show_store [simp]:
  "baseTexture (store (updateCanvas_show valid cr cs) c) = baseTexture (store (snd cs) c)"
  by (simp add: updateCanvas_show_def Let_def canvas_defs setTimeout_def clearTimeout_def
      split: option.splits)

lemma changes_store [simp]:
  "redraws (store (snd (updateCanvas_changes cr tc pp st)) c) = redraws (store st c)"
  "display (element (store (snd (updateCanvas_changes cr tc pp st)) c)) = display (element (store st c))"
  by (simp_all add: updateCanvas_changes_def)

lemma texture_rebind:
  assumes "canvasImagePath st \<noteq> Some (imagePath (props st))"
  shows "fst (updateCanvas_texture cr tc (b, st))"
    and "baseTexture (store (snd (updateCanvas_texture cr tc (b, st))) cr) =
          getTexture tc (imagePath (props st))"
    and "canvasImagePath (snd (updateCanvas_texture cr tc (b, st))) =
          (case getTexture tc (imagePath (props st)) of
             Some t \<Rightarrow> Some (imagePath (props st)) | None \<Rightarrow> None)"
    and "calls (snd (updateCanvas_texture cr tc (b, st))) =
          calls st @ [CallSetBaseTexture cr (getTexture tc (imagePath (props st))) False]
            @ (case getTexture tc (imagePath (props st)) of
                 Some t \<Rightarrow> [OnTextureChange \<lparr>width = width t, height = height t\<rparr>] | None \<Rightarrow> [])"
  using assms
  by (simp_all add: updateCanvas_texture_def Let_def canvas_defs textureSize_def split: option.splits)

lemma updateCanvas_no_error:
  assumes "canvas st = Some cr" and "textureCache st = Some tc"
    and "getTextureError tc (imagePath (props st)) = None"
  shows "updateCanvas valid prevProps st =
     updateCanvas_show valid cr
       (updateCanvas_changes cr (setImagesToFetch (interest (props st)) tc) prevProps
          (updateCanvas_declare tc st))"
  using assms by (simp add: updateCanvas_def Let_def)

lemma show_valid:
  assumes "fst cs" and "cameraMetrics (props (snd cs)) \<noteq> None" and "valid (store (snd cs) cr)"
  shows "deferredHideCanvasTimeout (updateCanvas_show valid cr cs) = None"
    and "timers (updateCanvas_show valid cr cs) =
          (case deferredHideCanvasTimeout (snd cs) of
             Some h \<Rightarrow> filter (\<lambda>t. fst t \<noteq> h) (timers (snd cs)) | None \<Rightarrow> timers (snd cs))"
    and "redraws (store (updateCanvas_show valid cr cs) cr) = Suc (redraws (store (snd cs) cr))"
    and "display (element (store (updateCanvas_show valid cr cs) cr)) = ''block''"
    and "prevLoadingState (updateCanvas_show valid cr cs) = Some Done"
    and "calls (updateCanvas_show valid cr cs) =
          calls (snd cs)
            @ (case deferredHideCanvasTimeout (snd cs) of Some h \<Rightarrow> [CallClearTimeout h] | None \<Rightarrow> [])
            @ [CallUpdate cr, CallSetDisplay cr ''block'']
            @ (if prevLoadingState (snd cs) = Some Done then [] else [OnLoadingStateChange Done])"
    and "nextHandle (updateCanvas_show valid cr cs) = nextHandle (snd cs)"
  using assms
  by (simp_all add: updateCanvas_show_def Let_def canvas_defs clearTimeout_def split: option.splits)

lemma updateCanvas_unmounted: "canvas st = None \<Longrightarrow> updateCanvas valid prevProps st = st"
  by (simp add: updateCanvas_def)

lemma fireTimeout_pending:
  assumes "map_of (timers st) h = Some cr"
  shows "deferredHideCanvasTimeout (fireTimeout h st) = None"
    and "timers (fireTimeout h st) = filter (\<lambda>t. fst t \<noteq> h) (timers st)"
    and "display (element (store (fireTimeout h st) cr)) = ''none''"
    and "prevLoadingState (fireTimeout h st) = Some Loading"
    and "calls (fireTimeout h st) =
          calls st @ [CallSetDisplay cr ''none'']
            @ (if prevLoadingState st = Some Loading then [] else [OnLoadingStateChange Loading])"
  using assms by (simp_all add: fireTimeout_def deferredHide_def setDisplay_def)

lemma show_starts:
  assumes "fst cs" and "\<not> (cameraMetrics (props (snd cs)) \<noteq> None \<and> valid (store (snd cs) cr))"
    and "deferredHideCanvasTimeout (snd cs) = None"
  shows "timers (updateCanvas_show valid cr cs) = timers (snd cs) @ [(nextHandle (snd cs), cr)]"
    and "deferredHideCanvasTimeout (updateCanvas_show valid cr cs) = Some (nextHandle (snd cs))"
    and "calls (updateCanvas_show valid cr cs) =
           calls (snd cs) @ [CallSetTimeout (nextHandle (snd cs)) 100]"
  using assms by (auto simp add: updateCanvas_show_def Let_def setTimeout_def)

lemma show_idle:
  assumes "\<not> (fst cs \<and> \<not> (cameraMetrics (props (snd cs)) \<noteq> None \<and> valid (store (snd cs) cr))
             \<and> deferredHideCanvasTimeout (snd cs) = None)"
  shows "nextHandle (updateCanvas_show valid cr cs) = nextHandle (snd cs)"
    and "set (timers (updateCanvas_show valid cr cs)) \<subseteq> set (timers (snd cs))"
  using assms
  by (auto simp add: updateCanvas_show_def Let_def canvas_defs clearTimeout_def split: option.splits)

lemma updateCanvas_without_canvas:
  assumes "canvas st = None \<or> textureCache st = None
     \<or> (\<exists>tc e. textureCache st = Some tc \<and> getTextureError tc (imagePath (props st)) = Some e)"
  shows "timers (updateCanvas valid prevProps st) = timers st"
    and "nextHandle (updateCanvas valid prevProps st) = nextHandle st"
    and "deferredHideCanvasTimeout (updateCanvas valid prevProps st) = deferredHideCanvasTimeout st"
  using assms
  by (auto simp add: updateCanvas_def Let_def setDisplay_def split: option.splits)

section \<open>The element stays attached until the unmount\<close>

lemma bodySize_parentNode [simp]:
  "parentNode (element (store (snd (updateCanvas_bodySize cr pp cs)) c)) =
     parentNode (element (store (snd cs) c))"
  by (simp add: updateCanvas_bodySize_def Let_def)

lemma changes_parentNode [simp]:
  "parentNode (element (store (snd (updateCanvas_changes cr tc pp st)) c)) =
     parentNode (element (store st c))"
  by (simp add: updateCanvas_changes_def)

lemma show_parentNode [simp]:
  "parentNode (element (store (updateCanvas_show valid cr cs) c)) =
     parentNode (element (store (snd cs) c))"
  by (simp add: updateCanvas_show_def Let_def canvas_defs setTimeout_def clearTimeout_def
      split: option.splits)

lemma updateCanvas_parentNode [simp]:
  "parentNode (element (store (updateCanvas valid pp st) c)) = parentNode (element (store st c))"
  by (simp add: updateCanvas_def Let_def setDisplay_def split: option.splits)

lemma updateCanvas_canvas [simp]: "canvas (updateCanvas valid pp st) = canvas st"
  by (simp add: updateCanvas_def Let_def setDisplay_def split: option.splits)

lemma attached_updateCanvas: "attached (updateCanvas valid pp st) = attached st"
  by (simp add: attached_def split: option.splits)

lemma attached_step: "attached st \<Longrightarrow> attached (step valid st ev)"
proof (cases ev)
  case Mount
  show ?thesis
    by (simp add: Mount componentDidMount_def Let_def attached_updateCanvas)
       (simp add: attached_def newPhotoCanvas_def)
next
  case (Rerender p)
  assume "attached st"
  then show ?thesis
    by (simp add: Rerender componentDidUpdate_def attached_updateCanvas)
       (simp add: attached_def split: option.splits)
next
  case Unmount
  assume "attached st"
  then show ?thesis
    by (auto simp add: Unmount componentWillUnmount_def attached_def split: option.splits)
next
  case (CacheChange f)
  assume "attached st"
  then show ?thesis by (simp add: CacheChange attached_def split: option.splits)
next
  case (TextureFetched path t)
  assume "attached st"
  then show ?thesis
    by (simp add: TextureFetched onTextureFetched_def attached_updateCanvas split: option.splits)
       (simp add: attached_def split: option.splits)
next
  case (TimeoutFired h)
  assume "attached st"
  then show ?thesis
    by (auto simp add: TimeoutFired fireTimeout_def deferredHide_def setDisplay_def attached_def
        split: option.splits)
qed

lemma attached_run: "attached st \<Longrightarrow> attached (run valid st evs)"
  unfolding run_def by (induction evs arbitrary: st) (simp_all add: attached_step)

lemma attached_new: "attached (newPhotoLayer p)"
  by (simp add: attached_def newPhotoLayer_def)

lemma lateFetches_unmounted:
  "canvas st = None \<Longrightarrow>
   canvas (lateFetches valid fs st) = None \<and> store (lateFetches valid fs st) = store st
   \<and> timers (lateFetches valid fs st) = timers st"
proof (induction fs arbitrary: st)
  case Nil
  then show ?case by (simp add: lateFetches_def)
next
  case (Cons f fs)
  let ?s = "onTextureFetched valid (fst f) (snd f) st"
  have s: "canvas ?s = None" "store ?s = store st" "timers ?s = timers st"
    using Cons.prems
    by (simp_all add: onTextureFetched_def updateCanvas_unmounted split: option.splits)
  have "lateFetches valid (f # fs) st = lateFetches valid fs ?s"
    by (simp add: lateFetches_def)
  with Cons.IH [OF s(1)] s show ?case by simp
qed

section \<open>The concrete inputs, evaluated\<close>

lemma ex_simps [simp]:
  "mode exProps = ''view''" "bodySize exProps = Obj 1 \<lparr>width = 800, height = 600\<rparr>"
  "imagePath exProps = ''/a.jpg''" "imagePathPrev exProps = Some ''/p.jpg''"
  "imagePathNext exProps = None" "cameraMetrics exProps = None"
  "mode exPropsCamera = ''view''" "bodySize exPropsCamera = Obj 1 \<lparr>width = 800, height = 600\<rparr>"
  "imagePath exPropsCamera = ''/a.jpg''" "imagePathPrev exPropsCamera = Some ''/p.jpg''"
  "imagePathNext exPropsCamera = None" "cameraMetrics exPropsCamera = Some exMetrics"
  "mode exPropsResized = ''view''" "bodySize exPropsResized = Obj 3 \<lparr>width = 1024, height = 768\<rparr>"
  "imagePath exPropsResized = ''/a.jpg''" "imagePathPrev exPropsResized = Some ''/p.jpg''"
  "imagePathNext exPropsResized = None" "cameraMetrics exPropsResized = Some exMetrics"
  "mode exPropsMoved = ''view''" "bodySize exPropsMoved = Obj 1 \<lparr>width = 800, height = 600\<rparr>"
  "imagePath exPropsMoved = ''/a.jpg''" "imagePathPrev exPropsMoved = Some ''/p.jpg''"
  "imagePathNext exPropsMoved = None" "cameraMetrics exPropsMoved = Some exMetricsMoved"
  "ident exMetrics = 2" "ident exMetricsMoved = 4"
  "contents exMetrics = \<lparr>canvasSize = \<lparr>width = 800, height = 600\<rparr>,
     projectionMatrix = [1, 0, 0, 1], cameraMatrix = [2, 0, 0, 2], cropRect = (0, 0, 400, 300)\<rparr>"
  "contents exMetricsMoved = \<lparr>canvasSize = \<lparr>width = 800, height = 600\<rparr>,
     projectionMatrix = [1, 0, 0, 1], cameraMatrix = [3, 0, 0, 3], cropRect = (0, 0, 400, 300)\<rparr>"
  "width exTexture = 400" "height exTexture = 300"
  "interest exProps = [Some ''/a.jpg'', None, Some ''/p.jpg'']"
  "interest exPropsCamera = [Some ''/a.jpg'', None, Some ''/p.jpg'']"
  "interest exPropsResized = [Some ''/a.jpg'', None, Some ''/p.jpg'']"
  "interest exPropsMoved = [Some ''/a.jpg'', None, Some ''/p.jpg'']"
  by (simp_all add: exProps_def exPropsCamera_def exPropsResized_def exPropsMoved_def exMetrics_def
      exMetricsMoved_def exTexture_def interest_def)

lemma exCache_simps [simp]:
  "setImagesToFetch [Some ''/a.jpg'', None, Some ''/p.jpg''] (newTextureCache 0 5) = exCache"
  "setImagesToFetch [Some ''/a.jpg'', None, Some ''/p.jpg''] exCache = exCache"
  "setImagesToFetch [Some ''/a.jpg'', None, Some ''/p.jpg''] (exDecoded exCache) = exDecoded exCache"
  "setImagesToFetch [Some ''/a.jpg'', None, Some ''/p.jpg''] (exFail exCache) = exFail exCache"
  "getTextureError exCache path = None" "getTexture exCache path = None"
  "getTextureError (newTextureCache 0 5) path = None" "getTexture (newTextureCache 0 5) path = None"
  "getTextureError (exDecoded exCache) path = None"
  "getTexture (exDecoded exCache) ''/a.jpg'' = Some exTexture"
  "getTextureError (exFail exCache) ''/a.jpg'' = Some ''decode-failure''"
  by (simp_all add: exCache_def exDecoded_def exFail_def setImagesToFetch_def newTextureCache_def
      getTextureError_def getTexture_def exProps_def interest_def)

lemmas eval_defs = exampleValid_def
  componentDidUpdate_def componentWillUnmount_def fireTimeout_def onTextureFetched_def
  componentDidMount_def updateCanvas_def updateCanvas_declare_def updateCanvas_changes_def
  updateCanvas_texture_def updateCanvas_bodySize_def updateCanvas_clipRect_def
  updateCanvas_camera_def updateCanvas_show_def deferredHide_def
  setDisplay_def setBaseTexture_def setClipRect_def setSize_def setProjectionMatrix_def
  setCameraMatrix_def update_def setTimeout_def clearTimeout_def setLoadingState_def
  call_def onCanvas_def newPhotoLayer_def newPhotoCanvas_def
  emptyProps_def asPartial_def bodySizeDiffers_def modeDiffers_def cameraMetricsDiffers_def
  refEq_def textureSize_def pendingHandles_def Let_def

lemma exMounted_eq:
  "exMounted =
   \<lparr>props = exProps, canvas = Some 0, textureCache = Some exCache,
      canvasImagePath = None, deferredHideCanvasTimeout = Some (Suc 0),
      prevLoadingState = None,
      store =
        (\<lambda>_. \<lparr>baseTexture = None, clipRect = None, pixelSize = None,
                projection = None, camera = None, redraws = 0,
                element =
                  \<lparr>className = [], display = [], styleWidth = None,
                     styleHeight = None, parentNode = False\<rparr>\<rparr>)
        (0 := \<lparr>baseTexture = None, clipRect = None, pixelSize = None,
                 projection = None, camera = None, redraws = 0,
                 element =
                   \<lparr>className = ''PhotoLayer-canvas'', display = ''none'',
                      styleWidth = Some 800, styleHeight = Some 600,
                      parentNode = True\<rparr>\<rparr>),
      nextRef = Suc 0, timers = [(Suc 0, 0)], nextHandle = Suc (Suc 0),
      calls =
        [CallAppendChild 0,
         CallSetImagesToFetch [Some ''/a.jpg'', None, Some ''/p.jpg''],
         CallSetBaseTexture 0 None False, CallSetStyleSize 0 800 600,
         CallSetClipRect 0 None, CallSetTimeout (Suc 0) 100]\<rparr>"
  by (simp add: exMounted_def run_def eval_defs)

lemma exFailed_eq: "exFailed = exMounted\<lparr>textureCache := Some (exFail exCache)\<rparr>"
proof -
  have "exFailed = step exampleValid exMounted (CacheChange exFail)"
    by (simp add: exFailed_def exMounted_def run_def)
  then show ?thesis by (simp add: exMounted_eq)
qed

lemma exReady_eq: "exReady = exMounted\<lparr>textureCache := Some (exDecoded exCache)\<rparr>"
proof -
  have "exReady = step exampleValid exMounted (CacheChange exDecoded)"
    by (simp add: exReady_def exMounted_def run_def)
  then show ?thesis by (simp add: exMounted_eq)
qed

lemma exHidden_eq:
  "exHidden =
   \<lparr>props = exProps, canvas = Some 0, textureCache = Some exCache,
      canvasImagePath = None, deferredHideCanvasTimeout = None,
      prevLoadingState = Some Loading,
      store =
        (\<lambda>_. \<lparr>baseTexture = None, clipRect = None, pixelSize = None,
                projection = None, camera = None, redraws = 0,
                element =
                  \<lparr>className = [], display = [], styleWidth = None,
                     styleHeight = None, parentNode = False\<rparr>\<rparr>)
        (0 := \<lparr>baseTexture = None, clipRect = None, pixelSize = None,
                 projection = None, camera = None, redraws = 0,
                 element =
                   \<lparr>className = ''PhotoLayer-canvas'', display = ''none'',
                      styleWidth = Some 800, styleHeight = Some 600,
                      parentNode = True\<rparr>\<rparr>),
      nextRef = Suc 0, timers = [], nextHandle = Suc (Suc 0),
      calls =
        [CallAppendChild 0,
         CallSetImagesToFetch [Some ''/a.jpg'', None, Some ''/p.jpg''],
         CallSetBaseTexture 0 None False, CallSetStyleSize 0 800 600,
         CallSetClipRect 0 None, CallSetTimeout (Suc 0) 100,
         CallSetDisplay 0 ''none'', OnLoadingStateChange Loading]\<rparr>"
proof -
  have "exHidden = step exampleValid exMounted (TimeoutFired 1)"
    by (simp add: exHidden_def exMounted_def run_def)
  then show ?thesis by (simp add: exMounted_eq eval_defs)
qed

lemma exUnmounted_eq:
  "exUnmounted =
   \<lparr>props = exProps, canvas = None, textureCache = Some exCache,
      canvasImagePath = None, deferredHideCanvasTimeout = Some (Suc 0),
      prevLoadingState = None,
      store =
        (\<lambda>_. \<lparr>baseTexture = None, clipRect = None, pixelSize = None,
                projection = None, camera = None, redraws = 0,
                element =
                  \<lparr>className = [], display = [], styleWidth = None,
                     styleHeight = None, parentNode = False\<rparr>\<rparr>)
        (0 := \<lparr>baseTexture = None, clipRect = None, pixelSize = None,
                 projection = None, camera = None, redraws = 0,
                 element =
                   \<lparr>className = ''PhotoLayer-canvas'', display = ''none'',
                      styleWidth = Some 800, styleHeight = Some 600,
                      parentNode = False\<rparr>\<rparr>),
      nextRef = Suc 0, timers = [(Suc 0, 0)], nextHandle = Suc (Suc 0),
      calls =
        [CallAppendChild 0,
         CallSetImagesToFetch [Some ''/a.jpg'', None, Some ''/p.jpg''],
         CallSetBaseTexture 0 None False, CallSetStyleSize 0 800 600,
         CallSetClipRect 0 None, CallSetTimeout (Suc 0) 100,
         CallRemoveChild 0]\<rparr>"
proof -
  have "exUnmounted = step exampleValid exMounted Unmount"
    by (simp add: exUnmounted_def exMounted_def run_def)
  then show ?thesis by (simp add: exMounted_eq eval_defs)
qed

lemma exShown_eq:
  "exShown =
   \<lparr>props = exPropsCamera, canvas = Some 0,
      textureCache = Some (exDecoded exCache),
      canvasImagePath = Some ''/a.jpg'', deferredHideCanvasTimeout = None,
      prevLoadingState = Some Done,
      store =
        (\<lambda>_. \<lparr>baseTexture = None, clipRect = None, pixelSize = None,
                projection = None, camera = None, redraws = 0,
                element =
                  \<lparr>className = [], display = [], styleWidth = None,
                     styleHeight = None, parentNode = False\<rparr>\<rparr>)
        (0 := \<lparr>baseTexture = Some exTexture,
                 clipRect = Some (0, 0, 400, 300),
                 pixelSize = Some \<lparr>width = 800, height = 600\<rparr>,
                 projection = Some [1, 0, 0, 1],
                 camera = Some [2, 0, 0, 2], redraws = Suc 0,
                 element =
                   \<lparr>className = ''PhotoLayer-canvas'', display = ''block'',
                      styleWidth = Some 800, styleHeight = Some 600,
                      parentNode = True\<rparr>\<rparr>),
      nextRef = Suc 0, timers = [], nextHandle = Suc (Suc 0),
      calls =
        [CallAppendChild 0,
         CallSetImagesToFetch [Some ''/a.jpg'', None, Some ''/p.jpg''],
         CallSetBaseTexture 0 None False, CallSetStyleSize 0 800 600,
         CallSetClipRect 0 None, CallSetTimeout (Suc 0) 100,
         CallSetImagesToFetch [Some ''/a.jpg'', None, Some ''/p.jpg''],
         CallSetBaseTexture 0 (Some exTexture) False,
         OnTextureChange \<lparr>width = 400, height = 300\<rparr>,
         CallSetClipRect 0 (Some (0, 0, 400, 300)),
         CallSetSize 0 \<lparr>width = 800, height = 600\<rparr>,
         CallSetProjectionMatrix 0 [1, 0, 0, 1],
         CallSetCameraMatrix 0 [2, 0, 0, 2], CallClearTimeout (Suc 0),
         CallUpdate 0, CallSetDisplay 0 ''block'',
         OnLoadingStateChange Done]\<rparr>"
proof -
  have "exShown = step exampleValid exReady (Rerender exPropsCamera)"
    by (simp add: exShown_def exReady_def run_def)
  then show ?thesis by (simp add: exReady_eq exMounted_eq eval_defs)
qed

lemmas ex_eqs = exMounted_eq exFailed_eq exReady_eq exHidden_eq exUnmounted_eq exShown_eq
  exRerendered_def exResized_def exMoved_def

section \<open>The interest list (C1)\<close>

text \<open>
  C1 as the specification states it: every update declares to the texture cache the list
  of previous, current and next path, in this order and without the null entries, before
  anything else. Line 102 passes another list. On a mounted layer whose previous path is
  \<open>/p.jpg\<close>, whose current path is \<open>/a.jpg\<close> and that has no next path, an update declares
  the current path, then null, then the previous path; the list of the specification
  would be previous, then current.
\<close>

theorem interest_order_counterexample:
  "calls (updateCanvas exampleValid (asPartial exProps) exMounted) =
      calls exMounted @ [CallSetImagesToFetch [Some ''/a.jpg'', None, Some ''/p.jpg''],
                         CallSetBaseTexture 0 None False]
   \<and> map Some (specInterest exProps) = [Some ''/p.jpg'', Some ''/a.jpg'']"
  by (simp add: exMounted_eq eval_defs specInterest_def)

text \<open>
  C1, amended: on every update of a layer that has its canvas and its texture cache, the
  first call is \<open>setImagesToFetch\<close> with the list of current, next and previous path, in
  this order, null entries passed on as they are; this list is then the interest list of
  the cache.
\<close>

theorem updateCanvas_declares_interest_first:
  assumes "canvas st = Some cr" and "textureCache st = Some tc"
  shows "(\<exists>rest. calls (updateCanvas valid prevProps st) =
            calls st @ CallSetImagesToFetch
              [Some (imagePath (props st)), imagePathNext (props st), imagePathPrev (props st)] # rest)
         \<and> map_option imagesToFetch (textureCache (updateCanvas valid prevProps st)) =
            Some [Some (imagePath (props st)), imagePathNext (props st), imagePathPrev (props st)]"
proof -
  let ?st1 = "updateCanvas_declare tc st"
  let ?tc = "setImagesToFetch (interest (props st)) tc"
  have p: "prefix (calls ?st1) (calls (updateCanvas valid prevProps st))"
  proof (cases "getTextureError tc (imagePath (props st))")
    case None
    have "prefix (calls ?st1) (calls (snd (updateCanvas_changes cr ?tc prevProps ?st1)))"
      by (rule prefix_changes)
    also have "prefix \<dots> (calls (updateCanvas_show valid cr (updateCanvas_changes cr ?tc prevProps ?st1)))"
      by (rule prefix_show)
    finally show ?thesis using assms None by (simp add: updateCanvas_def Let_def)
  next
    case (Some e)
    with assms show ?thesis by (simp add: updateCanvas_def Let_def setDisplay_def)
  qed
  then obtain rest where "calls (updateCanvas valid prevProps st) = calls ?st1 @ rest"
    by (auto elim: prefixE)
  then have a: "calls (updateCanvas valid prevProps st) =
      calls st @ CallSetImagesToFetch (interest (props st)) # rest"
    by simp
  have b: "textureCache (updateCanvas valid prevProps st) = Some ?tc"
    using assms
    by (cases "getTextureError tc (imagePath (props st))")
       (simp_all add: updateCanvas_def Let_def setDisplay_def)
  from a b show ?thesis
    by (auto simp add: interest_def setImagesToFetch_def)
qed

theorem updateCanvas_declares_interest_first_witness:
  "canvas exMounted = Some 0 \<and> textureCache exMounted = Some exCache
   \<and> (\<exists>rest. calls (updateCanvas exampleValid (asPartial exProps) exMounted) =
         calls exMounted @ CallSetImagesToFetch [Some ''/a.jpg'', None, Some ''/p.jpg''] # rest)
   \<and> map_option imagesToFetch (textureCache (updateCanvas exampleValid (asPartial exProps) exMounted)) =
         Some [Some ''/a.jpg'', None, Some ''/p.jpg'']"
proof -
  have h: "canvas exMounted = Some 0" "textureCache exMounted = Some exCache"
    by (simp_all add: exMounted_eq)
  have p: "props exMounted = exProps"
    by (simp add: exMounted_eq)
  show ?thesis
    using h updateCanvas_declares_interest_first
      [where valid = exampleValid and prevProps = "asPartial exProps", OF h]
    by (simp add: p)
qed

section \<open>An error for the current image (C2)\<close>

text \<open>
  C2: when \<open>getTextureError\<close> answers an error for the current path, the update hides the
  canvas element and sets the loading state to that error. Its calls are the declaration
  of interest, the hiding and, unless that error was the last state notified, the
  notification; in the store only the \<open>display\<close> of the element changes, so no texture is
  bound, no matrix is set and nothing is redrawn. Nothing is assumed about the camera
  metrics or about what \<open>isValid()\<close> answers.
\<close>

theorem updateCanvas_error_wins:
  assumes "canvas st = Some cr" and "textureCache st = Some tc"
    and "getTextureError tc (imagePath (props st)) = Some e"
  shows "display (element (store (updateCanvas valid prevProps st) cr)) = ''none''
    \<and> prevLoadingState (updateCanvas valid prevProps st) = Some (Failed e)
    \<and> calls (updateCanvas valid prevProps st) =
        calls st @ [CallSetImagesToFetch (interest (props st)), CallSetDisplay cr ''none'']
          @ (if prevLoadingState st = Some (Failed e) then [] else [OnLoadingStateChange (Failed e)])
    \<and> store (updateCanvas valid prevProps st) =
        (store st)(cr := (store st cr)\<lparr>element := (element (store st cr))\<lparr>display := ''none''\<rparr>\<rparr>)
    \<and> canvasImagePath (updateCanvas valid prevProps st) = canvasImagePath st
    \<and> canvas (updateCanvas valid prevProps st) = canvas st"
  using assms by (simp add: updateCanvas_def Let_def setDisplay_def)

theorem updateCanvas_error_wins_witness:
  "canvas exFailed = Some 0 \<and> textureCache exFailed = Some (exFail exCache)
   \<and> getTextureError (exFail exCache) (imagePath (props exFailed)) = Some ''decode-failure''
   \<and> display (element (store (updateCanvas exampleValid (asPartial exProps) exFailed) 0)) = ''none''
   \<and> prevLoadingState (updateCanvas exampleValid (asPartial exProps) exFailed) =
        Some (Failed ''decode-failure'')
   \<and> calls (updateCanvas exampleValid (asPartial exProps) exFailed) =
        calls exFailed @ [CallSetImagesToFetch [Some ''/a.jpg'', None, Some ''/p.jpg''],
          CallSetDisplay 0 ''none'', OnLoadingStateChange (Failed ''decode-failure'')]"
proof -
  have h: "canvas exFailed = Some 0" "textureCache exFailed = Some (exFail exCache)"
    "getTextureError (exFail exCache) (imagePath (props exFailed)) = Some ''decode-failure''"
    by (simp_all add: ex_eqs)
  have p: "props exFailed = exProps" "prevLoadingState exFailed = None"
    by (simp_all add: ex_eqs)
  show ?thesis
    using h updateCanvas_error_wins
      [where valid = exampleValid and prevProps = "asPartial exProps", OF h]
    by (simp add: p)
qed

section \<open>Binding the texture (C3)\<close>

text \<open>
  C3: on an update without an error for the current path, when \<open>canvasImagePath\<close> is not
  the current path, the answer of \<open>getTexture\<close> for the current path is set as the base
  texture of the canvas. With a texture, \<open>canvasImagePath\<close> becomes the current path and
  \<open>onTextureChange\<close> is called with the width and height of the texture; without one the
  base texture is null and \<open>canvasImagePath\<close> becomes null. In both cases \<open>canvasChanged\<close>
  is true when line 144 is reached.
\<close>

theorem updateCanvas_binds_texture:
  assumes "canvas st = Some cr" and "textureCache st = Some tc"
    and "getTextureError tc (imagePath (props st)) = None"
    and "canvasImagePath st \<noteq> Some (imagePath (props st))"
  shows "fst (updateCanvas_changes cr (setImagesToFetch (interest (props st)) tc) prevProps
            (updateCanvas_declare tc st))
    \<and> baseTexture (store (updateCanvas valid prevProps st) cr) = getTexture tc (imagePath (props st))
    \<and> canvasImagePath (updateCanvas valid prevProps st) =
        (case getTexture tc (imagePath (props st)) of
           Some t \<Rightarrow> Some (imagePath (props st)) | None \<Rightarrow> None)
    \<and> (\<exists>rest. calls (updateCanvas valid prevProps st) =
          calls st @ [CallSetImagesToFetch (interest (props st)),
                      CallSetBaseTexture cr (getTexture tc (imagePath (props st))) False]
            @ (case getTexture tc (imagePath (props st)) of
                 Some t \<Rightarrow> [OnTextureChange \<lparr>width = width t, height = height t\<rparr>] | None \<Rightarrow> [])
            @ rest)"
proof -
  let ?tc = "setImagesToFetch (interest (props st)) tc"
  let ?st1 = "updateCanvas_declare tc st"
  let ?tx = "updateCanvas_texture cr ?tc (False, ?st1)"
  let ?cs = "updateCanvas_changes cr ?tc prevProps ?st1"
  have ne: "canvasImagePath ?st1 \<noteq> Some (imagePath (props ?st1))"
    using assms(4) by simp
  note tx = texture_rebind [OF ne, of cr ?tc False]
  have u: "updateCanvas valid prevProps st = updateCanvas_show valid cr ?cs"
    using assms(1-3) by (rule updateCanvas_no_error)
  have a: "fst ?cs"
    using assms(4) by (simp add: changed_iff)
  have b: "baseTexture (store (updateCanvas valid prevProps st) cr) = getTexture tc (imagePath (props st))"
    using tx(2) by (simp add: u updateCanvas_changes_def)
  have c: "canvasImagePath (updateCanvas valid prevProps st) =
      (case getTexture tc (imagePath (props st)) of
         Some t \<Rightarrow> Some (imagePath (props st)) | None \<Rightarrow> None)"
    using tx(3) by (simp add: u updateCanvas_changes_def cong: option.case_cong)
  have "prefix (calls (snd ?tx)) (calls (snd (updateCanvas_bodySize cr prevProps ?tx)))"
    by (rule prefix_bodySize)
  also have "prefix \<dots> (calls (snd (updateCanvas_clipRect cr prevProps
      (updateCanvas_bodySize cr prevProps ?tx))))"
    by (rule prefix_clipRect)
  also have "prefix \<dots> (calls (snd ?cs))"
    unfolding updateCanvas_changes_def by (rule prefix_camera)
  also have "prefix \<dots> (calls (updateCanvas valid prevProps st))"
    unfolding u by (rule prefix_show)
  finally obtain rest where "calls (updateCanvas valid prevProps st) = calls (snd ?tx) @ rest"
    by (auto elim: prefixE)
  then have d: "calls (updateCanvas valid prevProps st) =
      calls st @ [CallSetImagesToFetch (interest (props st)),
                  CallSetBaseTexture cr (getTexture tc (imagePath (props st))) False]
        @ (case getTexture tc (imagePath (props st)) of
             Some t \<Rightarrow> [OnTextureChange \<lparr>width = width t, height = height t\<rparr>] | None \<Rightarrow> [])
        @ rest"
    using tx(4) by (simp cong: option.case_cong)
  from a b c d show ?thesis by blast
qed

theorem updateCanvas_binds_texture_witness:
  "canvas exReady = Some 0 \<and> textureCache exReady = Some (exDecoded exCache)
   \<and> getTextureError (exDecoded exCache) (imagePath (props exReady)) = None
   \<and> canvasImagePath exReady \<noteq> Some (imagePath (props exReady))
   \<and> baseTexture (store (updateCanvas exampleValid (asPartial exProps) exReady) 0) = Some exTexture
   \<and> canvasImagePath (updateCanvas exampleValid (asPartial exProps) exReady) = Some ''/a.jpg''
   \<and> (\<exists>rest. calls (updateCanvas exampleValid (asPartial exProps) exReady) =
         calls exReady @ [CallSetImagesToFetch [Some ''/a.jpg'', None, Some ''/p.jpg''],
           CallSetBaseTexture 0 (Some exTexture) False,
           OnTextureChange \<lparr>width = 400, height = 300\<rparr>] @ rest)"
proof -
  have h: "canvas exReady = Some 0" "textureCache exReady = Some (exDecoded exCache)"
    "getTextureError (exDecoded exCache) (imagePath (props exReady)) = None"
    "canvasImagePath exReady \<noteq> Some (imagePath (props exReady))"
    by (simp_all add: ex_eqs)
  have p: "props exReady = exProps"
    by (simp add: ex_eqs)
  show ?thesis
    using h updateCanvas_binds_texture
      [where valid = exampleValid and prevProps = "asPartial exProps", OF h]
    by (simp add: p)
qed

section \<open>Showing a valid canvas (C4)\<close>

text \<open>
  C4: when \<open>canvasChanged\<close> is true at line 144, the props have camera metrics and the
  canvas answers that it is valid, the update clears a pending deferred hide (the handle
  leaves the pending timeouts and the field becomes null), redraws once with \<open>update()\<close>,
  sets the \<open>display\<close> of the element to \<open>block\<close> and sets the loading state to done.
\<close>

theorem updateCanvas_shows_valid_canvas:
  assumes "canvas st = Some cr" and "textureCache st = Some tc"
    and "getTextureError tc (imagePath (props st)) = None"
    and "cs = updateCanvas_changes cr (setImagesToFetch (interest (props st)) tc) prevProps
                (updateCanvas_declare tc st)"
    and "fst cs" and "cameraMetrics (props st) \<noteq> None" and "valid (store (snd cs) cr)"
  shows "deferredHideCanvasTimeout (updateCanvas valid prevProps st) = None
    \<and> timers (updateCanvas valid prevProps st) =
        (case deferredHideCanvasTimeout st of
           Some h \<Rightarrow> filter (\<lambda>t. fst t \<noteq> h) (timers st) | None \<Rightarrow> timers st)
    \<and> redraws (store (updateCanvas valid prevProps st) cr) = Suc (redraws (store st cr))
    \<and> display (element (store (updateCanvas valid prevProps st) cr)) = ''block''
    \<and> prevLoadingState (updateCanvas valid prevProps st) = Some Done
    \<and> calls (updateCanvas valid prevProps st) =
        calls (snd cs)
          @ (case deferredHideCanvasTimeout st of Some h \<Rightarrow> [CallClearTimeout h] | None \<Rightarrow> [])
          @ [CallUpdate cr, CallSetDisplay cr ''block'']
          @ (if prevLoadingState st = Some Done then [] else [OnLoadingStateChange Done])"
proof -
  have u: "updateCanvas valid prevProps st = updateCanvas_show valid cr cs"
    unfolding assms(4) using assms(1-3) by (rule updateCanvas_no_error)
  have p: "cameraMetrics (props (snd cs)) \<noteq> None"
    using assms(6) by (simp add: assms(4))
  note sh = show_valid [where cs = cs and cr = cr and valid = valid, OF assms(5) p assms(7)]
  have f: "deferredHideCanvasTimeout (snd cs) = deferredHideCanvasTimeout st"
    "timers (snd cs) = timers st" "prevLoadingState (snd cs) = prevLoadingState st"
    "redraws (store (snd cs) cr) = redraws (store st cr)"
    by (simp_all add: assms(4))
  show ?thesis
    unfolding u using sh(1-6) by (simp only: f simp_thms)
qed

theorem updateCanvas_shows_valid_canvas_witness:
  "canvas exRerendered = Some 0 \<and> textureCache exRerendered = Some (exDecoded exCache)
   \<and> getTextureError (exDecoded exCache) (imagePath (props exRerendered)) = None
   \<and> fst (updateCanvas_changes 0 (setImagesToFetch (interest (props exRerendered)) (exDecoded exCache))
            (asPartial exProps) (updateCanvas_declare (exDecoded exCache) exRerendered))
   \<and> cameraMetrics (props exRerendered) \<noteq> None
   \<and> exampleValid (store (snd (updateCanvas_changes 0
         (setImagesToFetch (interest (props exRerendered)) (exDecoded exCache))
         (asPartial exProps) (updateCanvas_declare (exDecoded exCache) exRerendered))) 0)
   \<and> deferredHideCanvasTimeout exRerendered = Some 1
   \<and> timers exRerendered = [(1, 0)]
   \<and> deferredHideCanvasTimeout (updateCanvas exampleValid (asPartial exProps) exRerendered) = None
   \<and> timers (updateCanvas exampleValid (asPartial exProps) exRerendered) = []
   \<and> redraws (store (updateCanvas exampleValid (asPartial exProps) exRerendered) 0) = 1
   \<and> display (element (store (updateCanvas exampleValid (asPartial exProps) exRerendered) 0)) = ''block''
   \<and> prevLoadingState (updateCanvas exampleValid (asPartial exProps) exRerendered) = Some Done"
proof -
  have h: "canvas exRerendered = Some 0" "textureCache exRerendered = Some (exDecoded exCache)"
    "getTextureError (exDecoded exCache) (imagePath (props exRerendered)) = None"
    by (simp_all add: ex_eqs)
  have k: "fst (updateCanvas_changes 0 (setImagesToFetch (interest (props exRerendered)) (exDecoded exCache))
            (asPartial exProps) (updateCanvas_declare (exDecoded exCache) exRerendered))"
    "cameraMetrics (props exRerendered) \<noteq> None"
    "exampleValid (store (snd (updateCanvas_changes 0
         (setImagesToFetch (interest (props exRerendered)) (exDecoded exCache))
         (asPartial exProps) (updateCanvas_declare (exDecoded exCache) exRerendered))) 0)"
    by (simp_all add: ex_eqs eval_defs)
  have f: "deferredHideCanvasTimeout exRerendered = Some 1" "timers exRerendered = [(1, 0)]"
    "redraws (store exRerendered 0) = 0"
    by (simp_all add: ex_eqs)
  show ?thesis
    using h k f updateCanvas_shows_valid_canvas
      [where valid = exampleValid and prevProps = "asPartial exProps" and st = exRerendered
         and cr = 0 and tc = "exDecoded exCache", OF h refl k]
    by simp
qed

section \<open>The deferred hide (C5)\<close>

text \<open>
  C5: in every state that a layer reaches from its construction, whatever props it is
  rendered with, at most one timeout is pending, and the field
  \<open>deferredHideCanvasTimeout\<close> holds its handle. An update of such a state starts a
  timeout, of 100 ms, exactly when \<open>canvasChanged\<close> is true at line 144, the canvas is not
  shown (no camera metrics, or the canvas is not valid) and the field is null; an update
  that returns early starts none. When the canvas is shown and the field is null, nothing
  is cleared and the pending timeouts stay as they are. A pending timeout that fires
  clears the field, is no longer pending, hides the element and sets the loading state to
  loading; a handle that is not pending runs nothing.
\<close>

theorem deferred_hide_timer:
  assumes "st = (run valid0 (newPhotoLayer p) evs)\<lparr>props := q\<rparr>"
    and "st' = updateCanvas valid prevProps st"
    and "cs = updateCanvas_changes cr (setImagesToFetch (interest (props st)) tc) prevProps
                (updateCanvas_declare tc st)"
  shows "length (pendingHandles st) \<le> 1
    \<and> pendingHandles st = (case deferredHideCanvasTimeout st of None \<Rightarrow> [] | Some h \<Rightarrow> [h])
    \<and> (canvas st = Some cr \<and> textureCache st = Some tc
         \<and> getTextureError tc (imagePath (props st)) = None \<longrightarrow>
        (if fst cs \<and> \<not> (cameraMetrics (props st) \<noteq> None \<and> valid (store (snd cs) cr))
            \<and> deferredHideCanvasTimeout st = None
         then timers st' = [(nextHandle st, cr)]
            \<and> deferredHideCanvasTimeout st' = Some (nextHandle st)
            \<and> calls st' = calls (snd cs) @ [CallSetTimeout (nextHandle st) 100]
         else nextHandle st' = nextHandle st \<and> set (timers st') \<subseteq> set (timers st)))
    \<and> (canvas st = None \<or> textureCache st = None
         \<or> (\<exists>tc e. textureCache st = Some tc \<and> getTextureError tc (imagePath (props st)) = Some e) \<longrightarrow>
        nextHandle st' = nextHandle st \<and> timers st' = timers st)
    \<and> (canvas st = Some cr \<and> textureCache st = Some tc
         \<and> getTextureError tc (imagePath (props st)) = None \<and> fst cs
         \<and> cameraMetrics (props st) \<noteq> None \<and> valid (store (snd cs) cr)
         \<and> deferredHideCanvasTimeout st = None \<longrightarrow>
        timers st' = timers st \<and> deferredHideCanvasTimeout st' = None
        \<and> calls st' = calls (snd cs) @ [CallUpdate cr, CallSetDisplay cr ''block'']
            @ (if prevLoadingState st = Some Done then [] else [OnLoadingStateChange Done]))
    \<and> (map_of (timers st) h = Some c \<longrightarrow>
        deferredHideCanvasTimeout st = Some h
        \<and> deferredHideCanvasTimeout (fireTimeout h st) = None
        \<and> timers (fireTimeout h st) = []
        \<and> display (element (store (fireTimeout h st) c)) = ''none''
        \<and> prevLoadingState (fireTimeout h st) = Some Loading
        \<and> calls (fireTimeout h st) =
            calls st @ [CallSetDisplay c ''none'']
              @ (if prevLoadingState st = Some Loading then [] else [OnLoadingStateChange Loading]))
    \<and> (map_of (timers st) h = None \<longrightarrow> fireTimeout h st = st)"
proof -
  have "inv (run valid0 (newPhotoLayer p) evs)"
    by (rule inv_run) (rule inv_new)
  then have i: "inv st"
    unfolding assms(1)
    using inv_cong [of "(run valid0 (newPhotoLayer p) evs)\<lparr>props := q\<rparr>"
        "run valid0 (newPhotoLayer p) evs"]
    by simp
  then have a: "pendingHandles st = (case deferredHideCanvasTimeout st of None \<Rightarrow> [] | Some h \<Rightarrow> [h])"
    by (simp add: inv_def)
  then have a': "length (pendingHandles st) \<le> 1"
    by (simp split: option.splits)
  have f: "props (snd cs) = props st" "timers (snd cs) = timers st"
    "deferredHideCanvasTimeout (snd cs) = deferredHideCanvasTimeout st"
    "nextHandle (snd cs) = nextHandle st" "prevLoadingState (snd cs) = prevLoadingState st"
    by (simp_all add: assms(3))
  have b: "if fst cs \<and> \<not> (cameraMetrics (props st) \<noteq> None \<and> valid (store (snd cs) cr))
            \<and> deferredHideCanvasTimeout st = None
         then timers st' = [(nextHandle st, cr)]
            \<and> deferredHideCanvasTimeout st' = Some (nextHandle st)
            \<and> calls st' = calls (snd cs) @ [CallSetTimeout (nextHandle st) 100]
         else nextHandle st' = nextHandle st \<and> set (timers st') \<subseteq> set (timers st)"
    if h: "canvas st = Some cr" "textureCache st = Some tc"
      "getTextureError tc (imagePath (props st)) = None"
  proof -
    have u: "st' = updateCanvas_show valid cr cs"
      unfolding assms(2,3) using h by (rule updateCanvas_no_error)
    show ?thesis
    proof (cases "fst cs \<and> \<not> (cameraMetrics (props st) \<noteq> None \<and> valid (store (snd cs) cr))
            \<and> deferredHideCanvasTimeout st = None")
      case True
      then have "timers st = []"
        using a by (simp add: pendingHandles_def)
      with True have "timers st' = [(nextHandle st, cr)]
            \<and> deferredHideCanvasTimeout st' = Some (nextHandle st)
            \<and> calls st' = calls (snd cs) @ [CallSetTimeout (nextHandle st) 100]"
        using show_starts [where cs = cs and cr = cr and valid = valid]
        by (simp add: u f)
      with True show ?thesis by simp
    next
      case False
      then have "nextHandle st' = nextHandle st \<and> set (timers st') \<subseteq> set (timers st)"
        using show_idle [where cs = cs and cr = cr and valid = valid]
        by (simp add: u f)
      with False show ?thesis by (simp only: simp_thms if_False)
    qed
  qed
  have c: "nextHandle st' = nextHandle st \<and> timers st' = timers st"
    if "canvas st = None \<or> textureCache st = None
         \<or> (\<exists>tc e. textureCache st = Some tc \<and> getTextureError tc (imagePath (props st)) = Some e)"
    unfolding assms(2) using updateCanvas_without_canvas [OF that] by simp
  have d: "timers st' = timers st \<and> deferredHideCanvasTimeout st' = None
        \<and> calls st' = calls (snd cs) @ [CallUpdate cr, CallSetDisplay cr ''block'']
            @ (if prevLoadingState st = Some Done then [] else [OnLoadingStateChange Done])"
    if h: "canvas st = Some cr" "textureCache st = Some tc"
      "getTextureError tc (imagePath (props st)) = None" "fst cs"
      "cameraMetrics (props st) \<noteq> None" "valid (store (snd cs) cr)"
      "deferredHideCanvasTimeout st = None"
  proof -
    have u: "st' = updateCanvas_show valid cr cs"
      unfolding assms(2,3) using h(1-3) by (rule updateCanvas_no_error)
    have p: "cameraMetrics (props (snd cs)) \<noteq> None"
      using h(5) by (simp add: f)
    note sh = show_valid [where cs = cs and cr = cr and valid = valid, OF h(4) p h(6)]
    show ?thesis
      unfolding u using sh(1,2,6) h(7) by (simp add: f)
  qed
  have e: "deferredHideCanvasTimeout st = Some h
        \<and> deferredHideCanvasTimeout (fireTimeout h st) = None
        \<and> timers (fireTimeout h st) = []
        \<and> display (element (store (fireTimeout h st) c)) = ''none''
        \<and> prevLoadingState (fireTimeout h st) = Some Loading
        \<and> calls (fireTimeout h st) =
            calls st @ [CallSetDisplay c ''none'']
              @ (if prevLoadingState st = Some Loading then [] else [OnLoadingStateChange Loading])"
    if m: "map_of (timers st) h = Some c"
  proof -
    from m have "(h, c) \<in> set (timers st)" by (rule map_of_SomeD)
    with a obtain h' where f: "deferredHideCanvasTimeout st = Some h'" and t: "map fst (timers st) = [h']"
      by (cases "deferredHideCanvasTimeout st") (auto simp add: pendingHandles_def)
    from t \<open>(h, c) \<in> set (timers st)\<close> have hh: "h' = h" by (cases "timers st") auto
    from t hh have "filter (\<lambda>t. fst t \<noteq> h) (timers st) = []" by (simp add: filter_single)
    with f hh show ?thesis
      using fireTimeout_pending [OF m] by simp
  qed
  have g: "fireTimeout h st = st" if "map_of (timers st) h = None"
    using that by (simp add: fireTimeout_def)
  from a a' b c d e g show ?thesis by blast
qed

theorem deferred_hide_timer_witness:
  "length (pendingHandles exMounted) \<le> 1
   \<and> pendingHandles exMounted = [1]
   \<and> map_of (timers exMounted) 1 = Some 0
   \<and> deferredHideCanvasTimeout (fireTimeout 1 exMounted) = None
   \<and> timers (fireTimeout 1 exMounted) = []
   \<and> display (element (store (fireTimeout 1 exMounted) 0)) = ''none''
   \<and> prevLoadingState (fireTimeout 1 exMounted) = Some Loading
   \<and> map_of (timers exMounted) 2 = None
   \<and> fireTimeout 2 exMounted = exMounted
   \<and> deferredHideCanvasTimeout exHidden = None
   \<and> timers (updateCanvas exampleValid (asPartial exProps) exHidden) = [(2, 0)]
   \<and> deferredHideCanvasTimeout (updateCanvas exampleValid (asPartial exProps) exHidden) = Some 2
   \<and> deferredHideCanvasTimeout exMoved = None
   \<and> timers (updateCanvas exampleValid (asPartial exPropsCamera) exMoved) = timers exMoved
   \<and> deferredHideCanvasTimeout (updateCanvas exampleValid (asPartial exPropsCamera) exMoved) = None
   \<and> canvas exUnmounted = None
   \<and> timers (updateCanvas exampleValid (asPartial exProps) exUnmounted) = timers exUnmounted"
proof -
  have r: "exMounted = (run exampleValid (newPhotoLayer exProps) [Mount])\<lparr>props := exProps\<rparr>"
    "exHidden = (run exampleValid (newPhotoLayer exProps) [Mount, TimeoutFired 1])\<lparr>props := exProps\<rparr>"
    "exMoved = (run exampleValid (newPhotoLayer exProps)
        [Mount, CacheChange exDecoded, Rerender exPropsCamera])\<lparr>props := exPropsMoved\<rparr>"
    "exUnmounted = (run exampleValid (newPhotoLayer exProps) [Mount, Unmount])\<lparr>props := exProps\<rparr>"
    unfolding exMounted_def [symmetric] exHidden_def [symmetric] exShown_def [symmetric]
      exUnmounted_def [symmetric]
    by (simp_all add: ex_eqs)
  have a: "length (pendingHandles exMounted) \<le> 1
     \<and> pendingHandles exMounted = [1]
     \<and> map_of (timers exMounted) 1 = Some 0
     \<and> deferredHideCanvasTimeout (fireTimeout 1 exMounted) = None
     \<and> timers (fireTimeout 1 exMounted) = []
     \<and> display (element (store (fireTimeout 1 exMounted) 0)) = ''none''
     \<and> prevLoadingState (fireTimeout 1 exMounted) = Some Loading"
    using deferred_hide_timer [where st = exMounted and valid = exampleValid
        and prevProps = "asPartial exProps" and cr = 0 and tc = exCache and h = 1 and c = 0,
        OF r(1) refl refl]
    by (simp add: exMounted_eq pendingHandles_def)
  have b: "map_of (timers exMounted) 2 = None \<and> fireTimeout 2 exMounted = exMounted"
    using deferred_hide_timer [where st = exMounted and valid = exampleValid
        and prevProps = "asPartial exProps" and cr = 0 and tc = exCache and h = 2 and c = 0,
        OF r(1) refl refl]
    by (simp add: exMounted_eq)
  have ch: "fst (updateCanvas_changes 0 (setImagesToFetch (interest (props exHidden)) exCache)
        (asPartial exProps) (updateCanvas_declare exCache exHidden))"
    by (simp add: changed_iff exHidden_eq)
  have c: "deferredHideCanvasTimeout exHidden = None
     \<and> timers (updateCanvas exampleValid (asPartial exProps) exHidden) = [(2, 0)]
     \<and> deferredHideCanvasTimeout (updateCanvas exampleValid (asPartial exProps) exHidden) = Some 2"
    using ch deferred_hide_timer [where st = exHidden and valid = exampleValid
        and prevProps = "asPartial exProps" and cr = 0 and tc = exCache and h = 1 and c = 0,
        OF r(2) refl refl]
    by (simp add: exHidden_eq)
  have cm: "fst (updateCanvas_changes 0 (setImagesToFetch (interest (props exMoved)) (exDecoded exCache))
        (asPartial exPropsCamera) (updateCanvas_declare (exDecoded exCache) exMoved))"
    "exampleValid (store (snd (updateCanvas_changes 0
        (setImagesToFetch (interest (props exMoved)) (exDecoded exCache))
        (asPartial exPropsCamera) (updateCanvas_declare (exDecoded exCache) exMoved))) 0)"
    by (simp_all add: ex_eqs eval_defs)
  have d: "deferredHideCanvasTimeout exMoved = None
     \<and> timers (updateCanvas exampleValid (asPartial exPropsCamera) exMoved) = timers exMoved
     \<and> deferredHideCanvasTimeout (updateCanvas exampleValid (asPartial exPropsCamera) exMoved) = None"
    using cm deferred_hide_timer [where st = exMoved and valid = exampleValid
        and prevProps = "asPartial exPropsCamera" and cr = 0 and tc = "exDecoded exCache"
        and h = 1 and c = 0, OF r(3) refl refl]
    by (simp add: ex_eqs)
  have e: "canvas exUnmounted = None
     \<and> timers (updateCanvas exampleValid (asPartial exProps) exUnmounted) = timers exUnmounted"
    using deferred_hide_timer [where st = exUnmounted and valid = exampleValid
        and prevProps = "asPartial exProps" and cr = 0 and tc = exCache and h = 1 and c = 0,
        OF r(4) refl refl]
    by (simp add: exUnmounted_eq)
  from a b c d e show ?thesis by blast
qed

section \<open>Notifications of the loading state (C6)\<close>

text \<open>
  C6: \<open>setLoadingState\<close> calls \<open>onLoadingStateChange\<close> exactly when the new state differs
  from \<open>prevLoadingState\<close>, and then remembers the new state. Started on a new layer, a
  sequence of transitions notifies the sequence without its adjacent repetitions: the
  first state is always notified, and a state set twice in a row is notified once. In
  every state that a layer reaches, \<open>prevLoadingState\<close> is the state that was notified
  last.
\<close>

theorem setLoadingState_deduplicates:
  fixes st :: "'e PhotoLayer" and evs :: "'e event list" and p :: Props
  defines "new \<equiv> (newPhotoLayer p :: 'e PhotoLayer)"
  shows "calls (setLoadingState l st) =
      calls st @ (if prevLoadingState st = Some l then [] else [OnLoadingStateChange l])
   \<and> prevLoadingState (setLoadingState l st) = Some l
   \<and> notifications (calls (setLoadingStates ls new)) = remdups_adj ls
   \<and> notifications (calls (setLoadingStates (ls @ [l, l]) new)) =
       notifications (calls (setLoadingStates (ls @ [l]) new))
   \<and> prevLoadingState (run valid new evs) = lastNotified (calls (run valid new evs))"
proof -
  have n: "prevLoadingState new = None" "calls new = []"
    by (simp_all add: new_def newPhotoLayer_def)
  have a: "notifications (calls (setLoadingStates ks new)) = remdups_adj ks" for ks
    using setLoadingStates_notifications [of ks new] n by simp
  have b: "remdups_adj (ls @ [l, l]) = remdups_adj (ls @ [l])"
    by (simp add: remdups_adj_append_two)
  have c: "inv (run valid new evs)"
    unfolding new_def by (rule inv_run) (rule inv_new)
  from a b c show ?thesis by (simp add: inv_def)
qed

theorem setLoadingState_deduplicates_witness:
  "notifications (calls (setLoadingStates [Loading, Loading, Done, Done, Loading]
      (newPhotoLayer exProps :: string PhotoLayer))) = [Loading, Done, Loading]
   \<and> calls (setLoadingState Loading (newPhotoLayer exProps :: string PhotoLayer)) =
       [OnLoadingStateChange Loading]
   \<and> calls (setLoadingState Loading (setLoadingState Loading (newPhotoLayer exProps :: string PhotoLayer))) =
       [OnLoadingStateChange Loading]"
  using setLoadingState_deduplicates [where l = Loading
      and st = "newPhotoLayer exProps :: string PhotoLayer"
      and ls = "[Loading, Loading, Done, Done, Loading]" and p = exProps and evs = "[]"]
    setLoadingState_deduplicates [where l = Loading
      and st = "setLoadingState Loading (newPhotoLayer exProps :: string PhotoLayer)"
      and ls = "[]" and p = exProps and evs = "[]"]
  by (simp add: newPhotoLayer_def)

section \<open>The completion of a fetch (C7)\<close>

text \<open>
  C7: \<open>onTextureFetched\<close> always runs \<open>updateCanvas\<close> with the current props as previous
  props. Before that it calls \<open>onTextureChange\<close> with the width and height of the texture
  exactly when the path is the current path and the texture is not null; for another
  path, or without a texture, the update runs on the unchanged state.
\<close>

theorem onTextureFetched_reruns_update:
  "onTextureFetched valid path texture st =
     updateCanvas valid (asPartial (props st))
       (st\<lparr>calls := calls st @
          (case texture of
             Some t \<Rightarrow> if path = imagePath (props st)
                       then [OnTextureChange \<lparr>width = width t, height = height t\<rparr>] else []
           | None \<Rightarrow> [])\<rparr>)"
  by (simp add: onTextureFetched_def call_def textureSize_def split: option.splits)

theorem onTextureFetched_reruns_update_witness:
  "calls (onTextureFetched exampleValid ''/a.jpg'' (Some exTexture) exReady) =
      calls exReady @ [OnTextureChange \<lparr>width = 400, height = 300\<rparr>,
        CallSetImagesToFetch [Some ''/a.jpg'', None, Some ''/p.jpg''],
        CallSetBaseTexture 0 (Some exTexture) False,
        OnTextureChange \<lparr>width = 400, height = 300\<rparr>]
   \<and> calls (onTextureFetched exampleValid ''/p.jpg'' (Some exTexture) exMounted) =
      calls exMounted @ [CallSetImagesToFetch [Some ''/a.jpg'', None, Some ''/p.jpg''],
        CallSetBaseTexture 0 None False]
   \<and> calls (onTextureFetched exampleValid ''/a.jpg'' None exMounted) =
      calls exMounted @ [CallSetImagesToFetch [Some ''/a.jpg'', None, Some ''/p.jpg''],
        CallSetBaseTexture 0 None False]"
  using onTextureFetched_reruns_update [where valid = exampleValid and path = "''/a.jpg''"
      and texture = "Some exTexture" and st = exReady]
    onTextureFetched_reruns_update [where valid = exampleValid and path = "''/p.jpg''"
      and texture = "Some exTexture" and st = exMounted]
    onTextureFetched_reruns_update [where valid = exampleValid and path = "''/a.jpg''"
      and texture = None and st = exMounted]
  by (simp add: ex_eqs eval_defs)

section \<open>A change of the body size alone (C8)\<close>

text \<open>
  C8: on an update without an error, when \<open>canvasImagePath\<close> is the current path, mode and
  camera metrics are those of the previous props and the body size is another object,
  \<open>canvasChanged\<close> stays false; the calls are the declaration of interest and the
  resizing of the element; in the store only the style width and height of the element
  change, so the base texture, the number of redraws and the \<open>display\<close> are as before;
  \<open>canvasImagePath\<close>, the loading state and the deferred hide are as before.
\<close>

theorem updateCanvas_only_resizes:
  assumes "canvas st = Some cr" and "textureCache st = Some tc"
    and "getTextureError tc (imagePath (props st)) = None"
    and "canvasImagePath st = Some (imagePath (props st))"
    and "\<not> modeDiffers (props st) prevProps" and "\<not> cameraMetricsDiffers (props st) prevProps"
    and "bodySizeDiffers (props st) prevProps"
  shows "\<not> fst (updateCanvas_changes cr (setImagesToFetch (interest (props st)) tc) prevProps
            (updateCanvas_declare tc st))
    \<and> calls (updateCanvas valid prevProps st) =
        calls st @ [CallSetImagesToFetch (interest (props st)),
                    CallSetStyleSize cr (width (contents (bodySize (props st))))
                      (height (contents (bodySize (props st))))]
    \<and> store (updateCanvas valid prevProps st) =
        (store st)(cr := (store st cr)\<lparr>element := (element (store st cr))\<lparr>
           styleWidth := Some (width (contents (bodySize (props st)))),
           styleHeight := Some (height (contents (bodySize (props st))))\<rparr>\<rparr>)
    \<and> canvasImagePath (updateCanvas valid prevProps st) = canvasImagePath st
    \<and> prevLoadingState (updateCanvas valid prevProps st) = prevLoadingState st
    \<and> deferredHideCanvasTimeout (updateCanvas valid prevProps st) = deferredHideCanvasTimeout st
    \<and> timers (updateCanvas valid prevProps st) = timers st"
  using assms
  by (simp add: updateCanvas_def Let_def updateCanvas_changes_def step_defs updateCanvas_show_def)

theorem updateCanvas_only_resizes_witness:
  "canvas exResized = Some 0 \<and> textureCache exResized = Some (exDecoded exCache)
   \<and> getTextureError (exDecoded exCache) (imagePath (props exResized)) = None
   \<and> canvasImagePath exResized = Some (imagePath (props exResized))
   \<and> \<not> modeDiffers (props exResized) (asPartial exPropsCamera)
   \<and> \<not> cameraMetricsDiffers (props exResized) (asPartial exPropsCamera)
   \<and> bodySizeDiffers (props exResized) (asPartial exPropsCamera)
   \<and> calls (updateCanvas exampleValid (asPartial exPropsCamera) exResized) =
        calls exResized @ [CallSetImagesToFetch [Some ''/a.jpg'', None, Some ''/p.jpg''],
          CallSetStyleSize 0 1024 768]
   \<and> prevLoadingState (updateCanvas exampleValid (asPartial exPropsCamera) exResized) = Some Done
   \<and> canvasImagePath (updateCanvas exampleValid (asPartial exPropsCamera) exResized) = Some ''/a.jpg''"
proof -
  have h: "canvas exResized = Some 0" "textureCache exResized = Some (exDecoded exCache)"
    "getTextureError (exDecoded exCache) (imagePath (props exResized)) = None"
    "canvasImagePath exResized = Some (imagePath (props exResized))"
    "\<not> modeDiffers (props exResized) (asPartial exPropsCamera)"
    "\<not> cameraMetricsDiffers (props exResized) (asPartial exPropsCamera)"
    "bodySizeDiffers (props exResized) (asPartial exPropsCamera)"
    by (simp_all add: ex_eqs asPartial_def modeDiffers_def cameraMetricsDiffers_def
        bodySizeDiffers_def refEq_def)
  have f: "prevLoadingState exResized = Some Done" "props exResized = exPropsResized"
    "canvasImagePath exResized = Some ''/a.jpg''"
    by (simp_all add: ex_eqs)
  show ?thesis
    using h updateCanvas_only_resizes [where valid = exampleValid, OF h]
    by (simp add: f)
qed

section \<open>After the unmount (C9)\<close>

text \<open>
  C9: in every state with a canvas that a layer reaches from its construction,
  \<open>componentWillUnmount\<close> returns, detaches the element of the canvas and clears the
  field \<open>canvas\<close>. After any fetches that end later and are reported to
  \<open>onTextureFetched\<close>, the field is still null and the store of canvas objects is as the
  unmount left it, and \<open>updateCanvas\<close> changes nothing, whatever the previous props; the
  only call that \<open>onTextureFetched\<close> makes then is, for the current path and a texture,
  that of \<open>onTextureChange\<close>.
\<close>

theorem unmounted_update_does_nothing:
  assumes "st = run valid0 (newPhotoLayer p) evs" and "canvas st = Some cr"
  shows "\<exists>st'. componentWillUnmount st = Inr st'
    \<and> canvas st' = None
    \<and> \<not> parentNode (element (store st' cr))
    \<and> calls st' = calls st @ [CallRemoveChild cr]
    \<and> canvas (lateFetches valid fs st') = None
    \<and> store (lateFetches valid fs st') = store st'
    \<and> updateCanvas valid prevProps (lateFetches valid fs st') = lateFetches valid fs st'
    \<and> calls (onTextureFetched valid path texture st') =
        calls st' @
          (case texture of
             Some t \<Rightarrow> if path = imagePath (props st')
                       then [OnTextureChange \<lparr>width = width t, height = height t\<rparr>] else []
           | None \<Rightarrow> [])"
proof -
  have "attached st"
    unfolding assms(1) by (rule attached_run) (rule attached_new)
  with assms(2) have a: "parentNode (element (store st cr))"
    by (simp add: attached_def)
  let ?st' = "(call (CallRemoveChild cr)
      (onCanvas cr (\<lambda>c. c\<lparr>element := (element c)\<lparr>parentNode := False\<rparr>\<rparr>) st))\<lparr>canvas := None\<rparr>"
  have u: "componentWillUnmount st = Inr ?st'"
    using assms(2) a by (simp add: componentWillUnmount_def)
  have n: "canvas ?st' = None" by simp
  note l = lateFetches_unmounted [OF n, of valid fs]
  have "updateCanvas valid prevProps (lateFetches valid fs ?st') = lateFetches valid fs ?st'"
    using l by (simp add: updateCanvas_unmounted)
  moreover have "calls (onTextureFetched valid path texture ?st') =
        calls ?st' @
          (case texture of
             Some t \<Rightarrow> if path = imagePath (props ?st')
                       then [OnTextureChange \<lparr>width = width t, height = height t\<rparr>] else []
           | None \<Rightarrow> [])"
    by (simp add: onTextureFetched_def updateCanvas_unmounted textureSize_def split: option.splits)
  ultimately show ?thesis
    using u l by simp
qed

theorem unmounted_update_does_nothing_witness:
  "exMounted = run exampleValid (newPhotoLayer exProps) [Mount] \<and> canvas exMounted = Some 0
   \<and> (\<exists>st'. componentWillUnmount exMounted = Inr st'
        \<and> canvas st' = None
        \<and> \<not> parentNode (element (store st' 0))
        \<and> canvas (lateFetches exampleValid [(''/a.jpg'', Some exTexture), (''/p.jpg'', None)] st') = None
        \<and> store (lateFetches exampleValid [(''/a.jpg'', Some exTexture), (''/p.jpg'', None)] st') =
            store st'
        \<and> updateCanvas exampleValid (asPartial exProps)
              (lateFetches exampleValid [(''/a.jpg'', Some exTexture), (''/p.jpg'', None)] st') =
            lateFetches exampleValid [(''/a.jpg'', Some exTexture), (''/p.jpg'', None)] st')"
proof -
  have h: "exMounted = run exampleValid (newPhotoLayer exProps) [Mount]" "canvas exMounted = Some 0"
    by (rule exMounted_def) (simp add: exMounted_eq)
  show ?thesis
    using h unmounted_update_does_nothing [where valid = exampleValid
        and prevProps = "asPartial exProps" and path = "''/a.jpg''" and texture = "Some exTexture"
        and fs = "[(''/a.jpg'', Some exTexture), (''/p.jpg'', None)]", OF h]
    by blast
qed

section \<open>The error branch and the deferred hide (C10)\<close>

text \<open>
  C10: an update that takes the error branch leaves the field \<open>deferredHideCanvasTimeout\<close>
  and the pending timeouts as they are. When the pending timeout fires afterwards, the
  loading state goes from the error to loading and \<open>onLoadingStateChange\<close> is called with
  loading, with no other event in between.
\<close>

theorem error_branch_keeps_timer:
  assumes "canvas st = Some cr" and "textureCache st = Some tc"
    and "getTextureError tc (imagePath (props st)) = Some e"
    and "deferredHideCanvasTimeout st = Some h" and "map_of (timers st) h = Some cr'"
  shows "deferredHideCanvasTimeout (updateCanvas valid prevProps st) = Some h
    \<and> timers (updateCanvas valid prevProps st) = timers st
    \<and> nextHandle (updateCanvas valid prevProps st) = nextHandle st
    \<and> prevLoadingState (updateCanvas valid prevProps st) = Some (Failed e)
    \<and> prevLoadingState (fireTimeout h (updateCanvas valid prevProps st)) = Some Loading
    \<and> deferredHideCanvasTimeout (fireTimeout h (updateCanvas valid prevProps st)) = None
    \<and> calls (fireTimeout h (updateCanvas valid prevProps st)) =
        calls (updateCanvas valid prevProps st)
          @ [CallSetDisplay cr' ''none'', OnLoadingStateChange Loading]"
proof -
  let ?st' = "updateCanvas valid prevProps st"
  have a: "deferredHideCanvasTimeout ?st' = Some h" "timers ?st' = timers st"
    "nextHandle ?st' = nextHandle st" "prevLoadingState ?st' = Some (Failed e)"
    using assms(1-4) by (simp_all add: updateCanvas_def Let_def setDisplay_def)
  have m: "map_of (timers ?st') h = Some cr'"
    using assms(5) a(2) by simp
  note f = fireTimeout_pending [OF m]
  from a f(1,4,5) show ?thesis by simp
qed

theorem error_branch_keeps_timer_witness:
  "canvas exFailed = Some 0 \<and> textureCache exFailed = Some (exFail exCache)
   \<and> getTextureError (exFail exCache) (imagePath (props exFailed)) = Some ''decode-failure''
   \<and> deferredHideCanvasTimeout exFailed = Some 1 \<and> map_of (timers exFailed) 1 = Some 0
   \<and> deferredHideCanvasTimeout (updateCanvas exampleValid (asPartial exProps) exFailed) = Some 1
   \<and> prevLoadingState (updateCanvas exampleValid (asPartial exProps) exFailed) =
        Some (Failed ''decode-failure'')
   \<and> prevLoadingState (fireTimeout 1 (updateCanvas exampleValid (asPartial exProps) exFailed)) =
        Some Loading
   \<and> calls (fireTimeout 1 (updateCanvas exampleValid (asPartial exProps) exFailed)) =
        calls (updateCanvas exampleValid (asPartial exProps) exFailed)
          @ [CallSetDisplay 0 ''none'', OnLoadingStateChange Loading]"
proof -
  have h: "canvas exFailed = Some 0" "textureCache exFailed = Some (exFail exCache)"
    "getTextureError (exFail exCache) (imagePath (props exFailed)) = Some ''decode-failure''"
    "deferredHideCanvasTimeout exFailed = Some 1" "map_of (timers exFailed) 1 = Some 0"
    by (simp_all add: ex_eqs)
  show ?thesis
    using h error_branch_keeps_timer
      [where valid = exampleValid and prevProps = "asPartial exProps", OF h]
    by simp
qed

end
